theory Spec2Isabelle
  imports Complex_Main
begin

section \<open>The particle choreography of main.js\<close>

text \<open>
  The theory embeds the gesture callback \<open>onHandsResults\<close>, the per-frame function
  \<open>animate\<close> and the startup loops of \<open>src/main.js\<close> that build the position tables.

  JavaScript numbers are modelled as \<^typ>\<open>real\<close>: \<open>Math.sqrt\<close>, \<open>Math.cbrt\<close>,
  \<open>Math.sin\<close>, \<open>Math.cos\<close> and \<open>Math.acos\<close> are the real functions, and the
  rounding of IEEE doubles and of the 32-bit float buffers behind the geometry
  attributes is left out. Every statement below is therefore a statement about the
  arithmetic the program writes down, not about its rounding.

  The media element \<open>videoEl\<close> belongs to the browser. Of it the model keeps the two
  attributes the program reads or writes (\<open>paused\<close>, \<open>muted\<close>) and a log of the calls
  the program makes on it. What \<open>play()\<close> does to the element is an input of the
  model (\<^typ>\<open>bool\<close> fields of a record \<open>browser\<close>); \<open>pause()\<close> sets \<open>paused\<close>.
\<close>

subsection \<open>CONFIG\<close>

record config =
  particleCount :: nat
  treeHeight :: real
  treeRadius :: real
  scatterRadius :: real
  lerpSpeed :: real
  videoDisplayOpacity :: real
  spiralCount :: nat
  spiralTurns :: real
  spiralSpeed :: real

definition CONFIG :: config where
  "CONFIG = \<lparr> particleCount = 8000, treeHeight = 6, treeRadius = 2.5,
     scatterRadius = 8, lerpSpeed = 0.05, videoDisplayOpacity = 0.92,
     spiralCount = 600, spiralTurns = 5, spiralSpeed = 0.8 \<rparr>"

subsection \<open>STATE, the module variables and the video element\<close>

datatype mode = TREE | SCATTER

datatype gesture = NONE | OPEN | CLOSED | PINCH

text \<open>A call the program makes on \<open>videoEl\<close>; \<open>Play m\<close> records the value of
  \<open>videoEl.muted\<close> at the moment of the call.\<close>

datatype video_call = Play bool | Pause

record world =
  mode :: mode
  isPlayingVideo :: bool
  handDetected :: bool
  handX :: real
  gesture :: gesture
  rotationTarget :: real
  videoOpacity :: real
  prevMode :: mode
  userInteracted :: bool
  started :: bool
  videoPaused :: bool
  videoMuted :: bool
  videoLog :: "video_call list"
  pendingAutoplay :: nat
  positions :: "real list"
  spiralPos :: "real list"
  treePositions :: "real list"
  scatterPositions :: "real list"
  spiralScatterCoords :: "real list"

text \<open>
  The first seven fields are the object \<open>STATE\<close>; \<open>prevMode\<close> is \<open>_prevMode\<close>;
  \<open>videoPaused\<close> and \<open>videoMuted\<close> are \<open>videoEl.paused\<close> and \<open>videoEl.muted\<close>;
  \<open>videoLog\<close> lists the calls made on \<open>videoEl\<close>, oldest first;
  \<open>pendingAutoplay\<close> counts the play promises on which \<open>animate\<close> has registered its
  \<open>then\<close>/\<open>catch\<close> pair and that are not settled yet; \<open>positions\<close> and
  \<open>spiralPos\<close> are the flat arrays behind \<open>geometry.attributes.position\<close> and
  \<open>spiralGeo.attributes.position\<close>; the last three are the arrays of the same name.
\<close>

datatype play_outcome = PlayThrows | PlayReturnsPromise | PlayReturnsNothing

record browser =
  playOutcome :: play_outcome
  pausedAfterPlay :: bool

text \<open>\<open>pausedAfterPlay\<close> is the value of \<open>videoEl.paused\<close> once the call of
  \<open>play()\<close> has returned or thrown: \<open>False\<close> when the element accepted the
  request, \<open>True\<close> when it refused it.\<close>

definition videoPlay :: "browser \<Rightarrow> world \<Rightarrow> world" where
  "videoPlay env w =
     w\<lparr> videoLog := videoLog w @ [Play (videoMuted w)], videoPaused := pausedAfterPlay env \<rparr>"

definition videoPause :: "world \<Rightarrow> world" where
  "videoPause w = w\<lparr> videoLog := videoLog w @ [Pause], videoPaused := True \<rparr>"

subsection \<open>The gesture callback\<close>

record landmark =
  lx :: real
  ly :: real
  lz :: real

text \<open>One hand is the sequence of 21 landmarks the classifier delivers; the callback
  reads the indices 0, 4, 8, 12, 16 and 20 of it.\<close>

type_synonym landmarks = "nat \<Rightarrow> landmark"

record vector3 =
  vx :: real
  vy :: real
  vz :: real

definition distanceTo :: "vector3 \<Rightarrow> vector3 \<Rightarrow> real" where
  "distanceTo a b =
     (let dx = vx a - vx b; dy = vy a - vy b; dz = vz a - vz b
      in sqrt (dx * dx + dy * dy + dz * dz))"

definition flat :: "landmark \<Rightarrow> vector3" where
  "flat p = \<lparr> vx = lx p, vy = ly p, vz = 0 \<rparr>"

definition tips :: "nat list" where
  "tips = [8, 12, 16, 20]"

definition avgDist :: "landmarks \<Rightarrow> real" where
  "avgDist lm =
     (let wristPos = flat (lm 0)
      in fold (\<lambda>idx acc. acc + distanceTo wristPos (flat (lm idx))) tips 0 / 4)"

definition pinchDist :: "landmarks \<Rightarrow> real" where
  "pinchDist lm = distanceTo (flat (lm 4)) (flat (lm 8))"

definition classifyOpenClosed :: "real \<Rightarrow> world \<Rightarrow> world" where
  "classifyOpenClosed a w =
     (let isClosed = a < 0.25; isOpen = a > 0.35
      in if isClosed then w\<lparr> gesture := CLOSED, mode := TREE \<rparr>
         else if isOpen then w\<lparr> gesture := OPEN, mode := SCATTER \<rparr>
         else w)"

definition detectPinch :: "browser \<Rightarrow> real \<Rightarrow> world \<Rightarrow> world" where
  "detectPinch env d w =
     (if d < 0.05 then
        (let w1 = w\<lparr> gesture := PINCH \<rparr>
         in if mode w1 = SCATTER \<and> videoOpacity w1 > 0.8 then
              (if \<not> isPlayingVideo w1 then videoPlay env (w1\<lparr> isPlayingVideo := True \<rparr>)
               else w1)
            else w1)
      else w)"

text \<open>\<open>results.multiHandLandmarks\<close> is \<open>undefined\<close> (\<open>None\<close>) or an array of hands.\<close>

definition onHandsResults :: "browser \<Rightarrow> landmarks list option \<Rightarrow> world \<Rightarrow> world" where
  "onHandsResults env multiHandLandmarks w =
     (let w0 = w\<lparr> handDetected := False \<rparr>
      in case multiHandLandmarks of
           None \<Rightarrow> w0
         | Some [] \<Rightarrow> w0
         | Some (lm # _) \<Rightarrow>
             (let w1 = w0\<lparr> handDetected := True \<rparr>;
                  w2 = w1\<lparr> handX := (lx (lm 0) - 0.5) * 2 \<rparr>;
                  w3 = classifyOpenClosed (avgDist lm) w2
              in detectPinch env (pinchDist lm) w3))"

subsection \<open>Helpers of the frame function\<close>

text \<open>\<open>THREE.MathUtils.lerp(x, y, t)\<close> of the three.js library.\<close>

definition lerp :: "real \<Rightarrow> real \<Rightarrow> real \<Rightarrow> real" where
  "lerp x y t = (1 - t) * x + t * y"

text \<open>The remainder operator \<open>%\<close> of JavaScript: the quotient is truncated towards
  zero, so the result has the sign of the dividend.\<close>

definition trunc :: "real \<Rightarrow> int" where
  "trunc q = (if 0 \<le> q then \<lfloor>q\<rfloor> else \<lceil>q\<rceil>)"

definition js_rem :: "real \<Rightarrow> real \<Rightarrow> real" where
  "js_rem a b = a - b * of_int (trunc (a / b))"

text \<open>\<open>getX\<close>, \<open>getY\<close>, \<open>getZ\<close> and \<open>setXYZ\<close> of a buffer attribute with item
  size 3. A write past the end of a typed array is dropped, as \<open>list_update\<close> does.\<close>

definition getX :: "real list \<Rightarrow> nat \<Rightarrow> real" where
  "getX arr i = arr ! (i * 3)"

definition getY :: "real list \<Rightarrow> nat \<Rightarrow> real" where
  "getY arr i = arr ! (i * 3 + 1)"

definition getZ :: "real list \<Rightarrow> nat \<Rightarrow> real" where
  "getZ arr i = arr ! (i * 3 + 2)"

definition setXYZ :: "real list \<Rightarrow> nat \<Rightarrow> real \<Rightarrow> real \<Rightarrow> real \<Rightarrow> real list" where
  "setXYZ arr i x y z = arr[i * 3 := x, i * 3 + 1 := y, i * 3 + 2 := z]"

text \<open>A loop \<open>for (let i = 0; i < n; i++) body(i)\<close> over a state: \<open>forLoop body n s\<close>
  is the state after the iterations \<open>0, \<dots>, n - 1\<close>.\<close>

primrec forLoop :: "(nat \<Rightarrow> 's \<Rightarrow> 's) \<Rightarrow> nat \<Rightarrow> 's \<Rightarrow> 's" where
  "forLoop body 0 s = s"
| "forLoop body (Suc n) s = body n (forLoop body n s)"

subsection \<open>The frame function\<close>

text \<open>Step 1 of \<open>animate\<close>: in TREE mode a video marked as playing is stopped.\<close>

definition handleStateTransitions :: "world \<Rightarrow> world" where
  "handleStateTransitions w =
     (if mode w = TREE then
        (if isPlayingVideo w then videoPause (w\<lparr> isPlayingVideo := False \<rparr>) else w)
      else w)"

definition updateVideoOpacity :: "config \<Rightarrow> world \<Rightarrow> world" where
  "updateVideoOpacity cfg w =
     (let targetOpacity = (if mode w = SCATTER then videoDisplayOpacity cfg else 0)
      in w\<lparr> videoOpacity := lerp (videoOpacity w) targetOpacity 0.05 \<rparr>)"

text \<open>The \<open>try\<close> block run on entering SCATTER: the source is assigned anew when a
  \<open>source\<close> child carries one, \<open>muted\<close> is written, \<open>play()\<close> is called, and the
  \<open>then\<close>/\<open>catch\<close> pair is registered when a promise came back. What the
  assignment and the call do to \<open>paused\<close> is the browser's: \<open>pausedAfterPlay\<close>.
  The video element exists whenever \<open>animate\<close> runs, since the module registers a
  listener on it while it loads.\<close>

definition enterScatter :: "browser \<Rightarrow> world \<Rightarrow> world" where
  "enterScatter env w =
     (let w1 = w\<lparr> videoMuted := \<not> userInteracted w \<rparr>;
          w2 = videoPlay env w1
      in if playOutcome env = PlayReturnsPromise
         then w2\<lparr> pendingAutoplay := pendingAutoplay w2 + 1 \<rparr> else w2)"

definition modeEdge :: "browser \<Rightarrow> world \<Rightarrow> world" where
  "modeEdge env w =
     (if mode w \<noteq> prevMode w then
        (let w1 = (if mode w = SCATTER then enterScatter env w else w);
             w2 = (if mode w1 \<noteq> SCATTER \<and> \<not> videoPaused w1
                   then (videoPause w1)\<lparr> isPlayingVideo := False \<rparr> else w1)
         in w2\<lparr> prevMode := mode w2 \<rparr>)
      else w)"

text \<open>The two continuations registered by \<open>enterScatter\<close>. The \<open>catch\<close> continuation
  writes the loading indicator only.\<close>

definition autoplayThen :: "world \<Rightarrow> world" where
  "autoplayThen w = w\<lparr> isPlayingVideo := True \<rparr>"

definition autoplayCatch :: "world \<Rightarrow> world" where
  "autoplayCatch w = w"

text \<open>One iteration of the spiral loop.\<close>

definition spiralBody :: "config \<Rightarrow> mode \<Rightarrow> real \<Rightarrow> real list \<Rightarrow> nat \<Rightarrow> real list \<Rightarrow> real list" where
  "spiralBody cfg md time scatterCoords i arr =
     (let treeHeightSpan = treeHeight cfg;
          treeTop = treeHeight cfg / 2;
          pct = real i / real (spiralCount cfg);
          baseTy = pct * treeHeight cfg - treeHeight cfg / 2
      in if md = TREE then
           (let flowOffset = js_rem (time * spiralSpeed cfg) treeHeightSpan;
                ty0 = baseTy + flowOffset;
                ty = (if ty0 > treeTop then ty0 - treeHeightSpan else ty0);
                normH = (ty + treeHeight cfg / 2) / treeHeight cfg;
                angle = normH * pi * 2 * spiralTurns cfg + time * spiralSpeed cfg;
                r = (1 - normH) * treeRadius cfg * 1.15 + 0.2;
                x = cos angle * r;
                z = sin angle * r
            in setXYZ arr i x ty z)
         else
           (let sx = scatterCoords ! (i * 3);
                sy = scatterCoords ! (i * 3 + 1);
                sz = scatterCoords ! (i * 3 + 2)
            in setXYZ arr i sx sy sz))"

definition updateSpiral :: "config \<Rightarrow> real \<Rightarrow> world \<Rightarrow> world" where
  "updateSpiral cfg time w =
     w\<lparr> spiralPos :=
          forLoop (spiralBody cfg (mode w) time (spiralScatterCoords w)) (spiralCount cfg) (spiralPos w) \<rparr>"

text \<open>One iteration of the main cloud loop.\<close>

definition particleBody :: "config \<Rightarrow> mode \<Rightarrow> real \<Rightarrow> real list \<Rightarrow> real list \<Rightarrow> nat \<Rightarrow> real list \<Rightarrow> real list" where
  "particleBody cfg md time treeTab scatterTab i arr =
     (let px = getX arr i; py = getY arr i; pz = getZ arr i;
          tx = (if md = TREE then treeTab ! (i * 3) else scatterTab ! (i * 3));
          ty = (if md = TREE then treeTab ! (i * 3 + 1)
                else scatterTab ! (i * 3 + 1) + sin (time + tx) * 0.005);
          tz = (if md = TREE then treeTab ! (i * 3 + 2) else scatterTab ! (i * 3 + 2));
          nx = lerp px tx (lerpSpeed cfg);
          ny = lerp py ty (lerpSpeed cfg);
          nz = lerp pz tz (lerpSpeed cfg)
      in setXYZ arr i nx ny nz)"

definition updateParticles :: "config \<Rightarrow> real \<Rightarrow> world \<Rightarrow> world" where
  "updateParticles cfg time w =
     w\<lparr> positions :=
          forLoop (particleBody cfg (mode w) time (treePositions w) (scatterPositions w))
            (particleCount cfg) (positions w) \<rparr>"

text \<open>
  \<open>animate\<close> at elapsed time \<open>time\<close>. Of its body the model keeps the stop of the
  video in TREE mode, the blend of the overlay opacity, the block run when the mode
  changed, the spiral loop and the main cloud loop, in the order of the source. The
  audio fade, the bloom and brightness blends, the pose of the overlay, the stall
  heuristic, the rotation and the star cluster write none of the fields of \<open>world\<close>.
\<close>

definition animate :: "config \<Rightarrow> browser \<Rightarrow> real \<Rightarrow> world \<Rightarrow> world" where
  "animate cfg env time w =
     updateParticles cfg time
       (updateSpiral cfg time
          (modeEdge env
             (updateVideoOpacity cfg
                (handleStateTransitions w))))"

subsection \<open>Startup\<close>

text \<open>An array filled by \<open>push\<close> in a loop: \<open>pushLoop item n\<close> is the array after the
  iterations \<open>0, \<dots>, n - 1\<close>, iteration \<open>i\<close> pushing the elements of \<open>item i\<close>.\<close>

primrec pushLoop :: "(nat \<Rightarrow> real list) \<Rightarrow> nat \<Rightarrow> real list" where
  "pushLoop item 0 = []"
| "pushLoop item (Suc n) = pushLoop item n @ item n"

text \<open>\<open>rnd k\<close> is the value of the \<open>k\<close>-th call of \<open>Math.random()\<close>, counted from 0.
  The main cloud loop is the first code to draw, six numbers an iteration: height,
  angle, scatter radius, \<open>theta\<close>, \<open>phi\<close> and the colour choice.\<close>

definition treePoint :: "config \<Rightarrow> (nat \<Rightarrow> real) \<Rightarrow> nat \<Rightarrow> real list" where
  "treePoint cfg rnd i =
     (let h = rnd (6 * i) * treeHeight cfg - treeHeight cfg / 2;
          normH = (h + treeHeight cfg / 2) / treeHeight cfg;
          r = (1 - normH) * treeRadius cfg;
          angle = rnd (6 * i + 1) * pi * 2;
          spiral = h * 2;
          tx = cos (angle + spiral) * r;
          ty = h;
          tz = sin (angle + spiral) * r
      in [tx, ty, tz])"

definition scatterPoint :: "config \<Rightarrow> (nat \<Rightarrow> real) \<Rightarrow> nat \<Rightarrow> real list" where
  "scatterPoint cfg rnd i =
     (let sr = scatterRadius cfg * root 3 (rnd (6 * i + 2));
          theta = rnd (6 * i + 3) * 2 * pi;
          phi = arccos (2 * rnd (6 * i + 4) - 1);
          sx = sr * sin phi * cos theta;
          sy = sr * sin phi * sin theta;
          sz = sr * cos phi
      in [sx, sy, sz])"

text \<open>The spiral loop draws next, three numbers an iteration.\<close>

definition spiralTreePoint :: "config \<Rightarrow> nat \<Rightarrow> real list" where
  "spiralTreePoint cfg i =
     (let pct = real i / real (spiralCount cfg);
          h = pct * treeHeight cfg - treeHeight cfg / 2;
          r = (1 - pct) * treeRadius cfg * 1.15 + 0.2;
          angle = pct * pi * 2 * spiralTurns cfg;
          tx = cos angle * r;
          ty = h;
          tz = sin angle * r
      in [tx, ty, tz])"

definition spiralScatterPoint :: "config \<Rightarrow> (nat \<Rightarrow> real) \<Rightarrow> nat \<Rightarrow> real list" where
  "spiralScatterPoint cfg rnd i =
     (let k = 6 * particleCount cfg + 3 * i;
          sr = scatterRadius cfg * root 3 (rnd k);
          theta = rnd (k + 1) * pi * 2;
          phi = arccos (2 * rnd (k + 2) - 1);
          sx = sr * sin phi * cos theta;
          sy = sr * sin phi * sin theta;
          sz = sr * cos phi
      in [sx, sy, sz])"

text \<open>The state once the module has been evaluated. \<open>paused0\<close> and \<open>muted0\<close> are the
  attributes the page gives the video element.\<close>

definition initWorld :: "config \<Rightarrow> (nat \<Rightarrow> real) \<Rightarrow> bool \<Rightarrow> bool \<Rightarrow> world" where
  "initWorld cfg rnd paused0 muted0 =
     \<lparr> mode = TREE, isPlayingVideo = False, handDetected = False, handX = 0,
       gesture = NONE, rotationTarget = 0, videoOpacity = 0,
       prevMode = TREE, userInteracted = False, started = False,
       videoPaused = paused0, videoMuted = muted0, videoLog = [], pendingAutoplay = 0,
       positions = pushLoop (treePoint cfg rnd) (particleCount cfg),
       spiralPos = pushLoop (spiralTreePoint cfg) (spiralCount cfg),
       treePositions = pushLoop (treePoint cfg rnd) (particleCount cfg),
       scatterPositions = pushLoop (scatterPoint cfg rnd) (particleCount cfg),
       spiralScatterCoords = pushLoop (spiralScatterPoint cfg rnd) (spiralCount cfg) \<rparr>"

subsection \<open>The other callbacks and the event loop\<close>

text \<open>\<open>handleOverlayClick\<close> up to its first \<open>await\<close>, and the block it runs once
  the hand model has loaded and the camera has been tried: the video is unmuted and
  asked to play. The two are separate steps of the event loop, since frames and
  gesture callbacks run while the function waits.\<close>

definition handleOverlayClick :: "world \<Rightarrow> world" where
  "handleOverlayClick w =
     (if started w then w else w\<lparr> started := True, userInteracted := True \<rparr>)"

definition overlayStartVideo :: "browser \<Rightarrow> world \<Rightarrow> world" where
  "overlayStartVideo env w = videoPlay env (w\<lparr> videoMuted := False \<rparr>)"

text \<open>The listeners of the \<open>playing\<close> and \<open>pause\<close> events of the video element.\<close>

definition onVideoPlaying :: "world \<Rightarrow> world" where
  "onVideoPlaying w = w\<lparr> isPlayingVideo := True \<rparr>"

definition onVideoPause :: "world \<Rightarrow> world" where
  "onVideoPause w = w\<lparr> isPlayingVideo := False \<rparr>"

text \<open>The callbacks run one at a time, each to completion. A settled play promise
  runs its continuation only when \<open>animate\<close> registered one.\<close>

datatype event =
    HandsResults browser "landmarks list option"
  | Tick browser real
  | AutoplayResolved
  | AutoplayRejected
  | VideoPlaying
  | VideoPauseEvent
  | OverlayClick
  | OverlayStartVideo browser

fun step :: "config \<Rightarrow> world \<Rightarrow> event \<Rightarrow> world" where
  "step cfg w (HandsResults env r) = onHandsResults env r w"
| "step cfg w (Tick env time) = animate cfg env time w"
| "step cfg w AutoplayResolved =
     (if 0 < pendingAutoplay w
      then (autoplayThen w)\<lparr> pendingAutoplay := pendingAutoplay w - 1 \<rparr> else w)"
| "step cfg w AutoplayRejected =
     (if 0 < pendingAutoplay w
      then (autoplayCatch w)\<lparr> pendingAutoplay := pendingAutoplay w - 1 \<rparr> else w)"
| "step cfg w VideoPlaying = onVideoPlaying w"
| "step cfg w VideoPauseEvent = onVideoPause w"
| "step cfg w OverlayClick = handleOverlayClick w"
| "step cfg w (OverlayStartVideo env) = overlayStartVideo env w"

definition run :: "config \<Rightarrow> world \<Rightarrow> event list \<Rightarrow> world" where
  "run cfg w evs = foldl (step cfg) w evs"

subsection \<open>Well-formed states\<close>

text \<open>The arrays have the lengths the startup loops give them: three numbers for
  each particle. In such a state every array read of \<open>animate\<close> is in range.\<close>

definition wellFormed :: "config \<Rightarrow> world \<Rightarrow> bool" where
  "wellFormed cfg w =
     (length (positions w) = 3 * particleCount cfg
      \<and> length (treePositions w) = 3 * particleCount cfg
      \<and> length (scatterPositions w) = 3 * particleCount cfg
      \<and> length (spiralPos w) = 3 * spiralCount cfg
      \<and> length (spiralScatterCoords w) = 3 * spiralCount cfg)"

subsection \<open>The spiral band as the specification words it\<close>

text \<open>The height of spiral particle \<open>i\<close> at elapsed time \<open>time\<close>: the base height
  plus \<open>time * spiralSpeed\<close> modulo the tree height, moved down by one tree height
  when it passed the top; the normalised height; and the angle and the radius computed
  from the normalised height.\<close>

definition spec_spiralHeight :: "config \<Rightarrow> real \<Rightarrow> nat \<Rightarrow> real" where
  "spec_spiralHeight cfg time i =
     (let base = real i / real (spiralCount cfg) * treeHeight cfg - treeHeight cfg / 2;
          raised = base + js_rem (time * spiralSpeed cfg) (treeHeight cfg)
      in if raised > treeHeight cfg / 2 then raised - treeHeight cfg else raised)"

definition spec_normH :: "config \<Rightarrow> real \<Rightarrow> real" where
  "spec_normH cfg y = (y + treeHeight cfg / 2) / treeHeight cfg"

definition spec_spiralAngle :: "config \<Rightarrow> real \<Rightarrow> real \<Rightarrow> real" where
  "spec_spiralAngle cfg time normH = normH * 2 * pi * spiralTurns cfg + time * spiralSpeed cfg"

definition spec_spiralRadius :: "config \<Rightarrow> real \<Rightarrow> real" where
  "spec_spiralRadius cfg normH = (1 - normH) * treeRadius cfg * 1.15 + 0.2"

subsection \<open>Concrete inputs\<close>

text \<open>A hand whose landmarks lie on one horizontal line: the wrist at \<open>wristX\<close>, the
  thumb tip at \<open>thumbX\<close> and every other landmark at \<open>tipX\<close>.\<close>

definition handAt :: "real \<Rightarrow> real \<Rightarrow> real \<Rightarrow> landmarks" where
  "handAt wristX tipX thumbX =
     (\<lambda>i. \<lparr> lx = (if i = 0 then wristX else if i = 4 then thumbX else tipX), ly = 0.5, lz = 0 \<rparr>)"

text \<open>A configuration with two particles in each family, a browser that starts the
  video when asked and one that refuses, and three small states.\<close>

definition tinyConfig :: config where
  "tinyConfig = CONFIG\<lparr> particleCount := 2, spiralCount := 2 \<rparr>"

definition accepting :: browser where
  "accepting = \<lparr> playOutcome = PlayReturnsPromise, pausedAfterPlay = False \<rparr>"

definition refusing :: browser where
  "refusing = \<lparr> playOutcome = PlayReturnsPromise, pausedAfterPlay = True \<rparr>"

definition treeWorld :: world where
  "treeWorld =
     \<lparr> mode = TREE, isPlayingVideo = False, handDetected = False, handX = 0,
       gesture = NONE, rotationTarget = 0, videoOpacity = 0,
       prevMode = TREE, userInteracted = True, started = True,
       videoPaused = True, videoMuted = False, videoLog = [], pendingAutoplay = 0,
       positions = [0, 1, 0, 2, 0, 0],
       spiralPos = [1, 0, 0, 0, 1, 0],
       treePositions = [0, 1, 0, 2, 0, 0],
       scatterPositions = [0, 0, 0, 0, 4, 0],
       spiralScatterCoords = [4, 0, 0, 0, 0, 4] \<rparr>"

definition scatterWorld :: world where
  "scatterWorld = treeWorld\<lparr> mode := SCATTER, prevMode := SCATTER, gesture := OPEN, videoOpacity := 0.9 \<rparr>"

definition cloudWorld :: world where
  "cloudWorld = scatterWorld\<lparr> positions := [0, 1, 0, 0, 4, 0] \<rparr>"

text \<open>Two random sources, and the state after the start overlay has been clicked and
  the video element has accepted the request to play, before any gesture arrived.\<close>

definition zeroRnd :: "nat \<Rightarrow> real" where
  "zeroRnd k = 0"

definition eighthRnd :: "nat \<Rightarrow> real" where
  "eighthRnd k = 1 / 8"

definition afterOverlayClick :: world where
  "afterOverlayClick =
     run CONFIG (initWorld CONFIG zeroRnd True False) [OverlayClick, OverlayStartVideo accepting]"

section \<open>Lemmas\<close>

subsection \<open>The gesture callback\<close>

lemma distanceTo_flat_level:
  "ly p = ly q \<Longrightarrow> distanceTo (flat p) (flat q) = \<bar>lx p - lx q\<bar>"
  by (simp add: distanceTo_def flat_def Let_def)

lemma avgDist_handAt: "avgDist (handAt a b c) = \<bar>a - b\<bar>"
  by (simp add: avgDist_def tips_def handAt_def distanceTo_flat_level)

lemma pinchDist_handAt: "pinchDist (handAt a b c) = \<bar>c - b\<bar>"
  by (simp add: pinchDist_def handAt_def distanceTo_flat_level)

lemma handAt_wrist: "lx (handAt a b c 0) = a"
  by (simp add: handAt_def)

lemma onHandsResults_hand:
  "onHandsResults env (Some (lm # rest)) w =
     detectPinch env (pinchDist lm)
       (classifyOpenClosed (avgDist lm) (w\<lparr> handDetected := True, handX := (lx (lm 0) - 0.5) * 2 \<rparr>))"
  by (simp add: onHandsResults_def Let_def)

lemma detectPinch_mode: "mode (detectPinch env d w) = mode w"
  by (simp add: detectPinch_def videoPlay_def Let_def)

lemma detectPinch_gesture: "gesture (detectPinch env d w) = (if d < 0.05 then PINCH else gesture w)"
  by (simp add: detectPinch_def videoPlay_def Let_def)

lemma detectPinch_flag:
  "isPlayingVideo (detectPinch env d w) =
     (isPlayingVideo w \<or> (d < 0.05 \<and> mode w = SCATTER \<and> videoOpacity w > 0.8))"
  by (simp add: detectPinch_def videoPlay_def Let_def)

lemma detectPinch_log:
  "videoLog (detectPinch env d w) =
     (if d < 0.05 \<and> mode w = SCATTER \<and> videoOpacity w > 0.8 \<and> \<not> isPlayingVideo w
      then videoLog w @ [Play (videoMuted w)] else videoLog w)"
  by (simp add: detectPinch_def videoPlay_def Let_def)

lemma classify_mode:
  "mode (classifyOpenClosed a w) = (if a < 0.25 then TREE else if a > 0.35 then SCATTER else mode w)"
  by (simp add: classifyOpenClosed_def Let_def)

lemma classify_gesture:
  "gesture (classifyOpenClosed a w) = (if a < 0.25 then CLOSED else if a > 0.35 then OPEN else gesture w)"
  by (simp add: classifyOpenClosed_def Let_def)

lemma classify_frame:
  "videoOpacity (classifyOpenClosed a w) = videoOpacity w"
  "isPlayingVideo (classifyOpenClosed a w) = isPlayingVideo w"
  "videoLog (classifyOpenClosed a w) = videoLog w"
  "videoMuted (classifyOpenClosed a w) = videoMuted w"
  by (simp_all add: classifyOpenClosed_def Let_def)

lemma onHandsResults_flag_mono:
  "isPlayingVideo w \<Longrightarrow> isPlayingVideo (onHandsResults env r w)"
  by (cases r; cases "the r") (simp_all add: onHandsResults_def Let_def detectPinch_flag classify_frame)

lemma onHandsResults_log_playing:
  "isPlayingVideo w \<Longrightarrow> videoLog (onHandsResults env r w) = videoLog w"
  by (cases r; cases "the r") (simp_all add: onHandsResults_def Let_def detectPinch_log classify_frame)

subsection \<open>The control part of a frame\<close>

lemma updateParticles_ctrl:
  "mode (updateParticles cfg t w) = mode w"
  "isPlayingVideo (updateParticles cfg t w) = isPlayingVideo w"
  "prevMode (updateParticles cfg t w) = prevMode w"
  "videoPaused (updateParticles cfg t w) = videoPaused w"
  "videoMuted (updateParticles cfg t w) = videoMuted w"
  "videoLog (updateParticles cfg t w) = videoLog w"
  "pendingAutoplay (updateParticles cfg t w) = pendingAutoplay w"
  "videoOpacity (updateParticles cfg t w) = videoOpacity w"
  by (simp_all add: updateParticles_def)

lemma updateSpiral_ctrl:
  "mode (updateSpiral cfg t w) = mode w"
  "isPlayingVideo (updateSpiral cfg t w) = isPlayingVideo w"
  "prevMode (updateSpiral cfg t w) = prevMode w"
  "videoPaused (updateSpiral cfg t w) = videoPaused w"
  "videoMuted (updateSpiral cfg t w) = videoMuted w"
  "videoLog (updateSpiral cfg t w) = videoLog w"
  "pendingAutoplay (updateSpiral cfg t w) = pendingAutoplay w"
  "videoOpacity (updateSpiral cfg t w) = videoOpacity w"
  by (simp_all add: updateSpiral_def)

lemma animate_ctrl:
  "mode (animate cfg env t w) = mode w"
  "prevMode (animate cfg env t w) = mode w"
  "isPlayingVideo (animate cfg env t w) =
     (if mode w = TREE then False else isPlayingVideo w)"
  "videoLog (animate cfg env t w) =
     videoLog w
     @ (if mode w = TREE \<and> isPlayingVideo w then [Pause] else [])
     @ (if mode w \<noteq> prevMode w \<and> mode w = SCATTER then [Play (\<not> userInteracted w)] else [])
     @ (if mode w \<noteq> prevMode w \<and> mode w = TREE \<and> \<not> isPlayingVideo w \<and> \<not> videoPaused w
        then [Pause] else [])"
  "videoPaused (animate cfg env t w) =
     (if mode w = TREE then (isPlayingVideo w \<or> mode w \<noteq> prevMode w \<or> videoPaused w)
      else if mode w \<noteq> prevMode w then pausedAfterPlay env else videoPaused w)"
  "videoMuted (animate cfg env t w) =
     (if mode w \<noteq> prevMode w \<and> mode w = SCATTER then \<not> userInteracted w else videoMuted w)"
  "pendingAutoplay (animate cfg env t w) =
     pendingAutoplay w
     + (if mode w \<noteq> prevMode w \<and> mode w = SCATTER \<and> playOutcome env = PlayReturnsPromise
        then 1 else 0)"
  by (cases "mode w"; cases "prevMode w";
      simp add: animate_def updateParticles_ctrl updateSpiral_ctrl modeEdge_def
        updateVideoOpacity_def handleStateTransitions_def enterScatter_def videoPlay_def
        videoPause_def Let_def)+

lemma control_frame:
  "positions (modeEdge env (updateVideoOpacity cfg (handleStateTransitions w))) = positions w"
  "spiralPos (modeEdge env (updateVideoOpacity cfg (handleStateTransitions w))) = spiralPos w"
  "treePositions (modeEdge env (updateVideoOpacity cfg (handleStateTransitions w))) = treePositions w"
  "scatterPositions (modeEdge env (updateVideoOpacity cfg (handleStateTransitions w))) = scatterPositions w"
  "spiralScatterCoords (modeEdge env (updateVideoOpacity cfg (handleStateTransitions w))) = spiralScatterCoords w"
  "mode (modeEdge env (updateVideoOpacity cfg (handleStateTransitions w))) = mode w"
  by (simp_all add: modeEdge_def updateVideoOpacity_def handleStateTransitions_def enterScatter_def
      videoPlay_def videoPause_def Let_def)

lemma updateSpiral_frame:
  "positions (updateSpiral cfg t w) = positions w"
  "treePositions (updateSpiral cfg t w) = treePositions w"
  "scatterPositions (updateSpiral cfg t w) = scatterPositions w"
  "spiralScatterCoords (updateSpiral cfg t w) = spiralScatterCoords w"
  by (simp_all add: updateSpiral_def)

lemma updateParticles_frame:
  "spiralPos (updateParticles cfg t w) = spiralPos w"
  "treePositions (updateParticles cfg t w) = treePositions w"
  "scatterPositions (updateParticles cfg t w) = scatterPositions w"
  "spiralScatterCoords (updateParticles cfg t w) = spiralScatterCoords w"
  by (simp_all add: updateParticles_def)

lemma animate_tables:
  "treePositions (animate cfg env t w) = treePositions w"
  "scatterPositions (animate cfg env t w) = scatterPositions w"
  "spiralScatterCoords (animate cfg env t w) = spiralScatterCoords w"
  by (simp_all add: animate_def updateParticles_frame updateSpiral_frame control_frame)

subsection \<open>Loops over triples\<close>

text \<open>Iteration \<open>i\<close> of either loop writes the triple \<open>i\<close> of the buffer and reads
  nothing else of it, so after the loop each triple holds what its own iteration
  computes from the buffer the loop started with.\<close>

lemma length_setXYZ: "length (setXYZ arr i x y z) = length arr"
  by (simp add: setXYZ_def)

lemma nth_setXYZ_other: "j div 3 \<noteq> i \<Longrightarrow> setXYZ arr i x y z ! j = arr ! j"
  by (auto simp add: setXYZ_def nth_list_update)

lemma nth_setXYZ:
  "i * 3 + 2 < length arr \<Longrightarrow>
     setXYZ arr i x y z ! (i * 3) = x \<and> setXYZ arr i x y z ! (i * 3 + 1) = y
     \<and> setXYZ arr i x y z ! (i * 3 + 2) = z"
  by (simp add: setXYZ_def nth_list_update)

lemma nth_list_update_if:
  "xs[i := x] ! j = (if i = j \<and> i < length xs then x else xs ! j)"
  by (cases "i < length xs") (simp_all add: nth_list_update list_update_beyond)

lemma setXYZ_cong:
  "length arr = length arr' \<Longrightarrow> arr ! j = arr' ! j \<Longrightarrow>
     setXYZ arr i x y z ! j = setXYZ arr' i x y z ! j"
  by (simp add: setXYZ_def nth_list_update_if)

lemma forLoop_length:
  assumes "\<And>i arr. length (body i arr) = length arr"
  shows "length (forLoop body n arr) = length (arr :: real list)"
  by (induction n) (simp_all add: assms)

lemma forLoop_untouched:
  assumes "\<And>i arr j. j div 3 \<noteq> i \<Longrightarrow> body i arr ! j = (arr :: real list) ! j"
  shows "n \<le> j div 3 \<Longrightarrow> forLoop body n arr ! j = arr ! j"
  by (induction n) (simp_all add: assms)

lemma forLoop_triple:
  assumes other: "\<And>i arr j. j div 3 \<noteq> i \<Longrightarrow> body i arr ! j = (arr :: real list) ! j"
    and own: "\<And>i arr arr' j. j div 3 = i \<Longrightarrow>
        (\<And>k. k div 3 = i \<Longrightarrow> arr ! k = arr' ! k) \<Longrightarrow> length arr = length arr' \<Longrightarrow>
        body i arr ! j = body i arr' ! j"
    and len: "\<And>i arr. length (body i arr) = length arr"
  shows "j div 3 < n \<Longrightarrow> forLoop body n arr ! j = body (j div 3) arr ! j"
proof (induction n)
  case 0
  then show ?case by simp
next
  case (Suc n)
  show ?case
  proof (cases "j div 3 = n")
    case True
    have "body n (forLoop body n arr) ! j = body n arr ! j"
    proof (rule own [OF True])
      fix k assume "k div 3 = n"
      then show "forLoop body n arr ! k = arr ! k"
        by (simp add: forLoop_untouched [OF other])
    next
      show "length (forLoop body n arr) = length arr"
        by (rule forLoop_length [OF len])
    qed
    with True show ?thesis by simp
  next
    case False
    with Suc.prems have "j div 3 < n" by simp
    with Suc.IH False show ?thesis by (simp add: other)
  qed
qed

subsection \<open>The main cloud loop\<close>

lemma lerp_blend: "lerp v t f = v + (t - v) * f"
  by (simp add: lerp_def algebra_simps)

lemma lerp_distance: "0 \<le> f \<Longrightarrow> f \<le> 1 \<Longrightarrow> \<bar>lerp v t f - t\<bar> = \<bar>v - t\<bar> * (1 - f)"
proof -
  assume a: "0 \<le> f" "f \<le> 1"
  have "lerp v t f - t = (v - t) * (1 - f)"
    by (simp add: lerp_def algebra_simps)
  then have "\<bar>lerp v t f - t\<bar> = \<bar>v - t\<bar> * \<bar>1 - f\<bar>"
    by (simp add: abs_mult)
  with a show ?thesis by simp
qed

lemma particleBody_other:
  "j div 3 \<noteq> i \<Longrightarrow> particleBody cfg md time tt st i arr ! j = arr ! j"
  by (simp add: particleBody_def Let_def nth_setXYZ_other)

lemma particleBody_length:
  "length (particleBody cfg md time tt st i arr) = length arr"
  by (simp add: particleBody_def Let_def length_setXYZ)

lemma particleBody_own:
  assumes "i * 3 + 2 < length arr"
  shows "particleBody cfg md time tt st i arr ! (i * 3) =
      lerp (arr ! (i * 3)) (if md = TREE then tt ! (i * 3) else st ! (i * 3)) (lerpSpeed cfg)"
    and "particleBody cfg md time tt st i arr ! (i * 3 + 1) =
      lerp (arr ! (i * 3 + 1))
        (if md = TREE then tt ! (i * 3 + 1)
         else st ! (i * 3 + 1) + sin (time + st ! (i * 3)) * 0.005) (lerpSpeed cfg)"
    and "particleBody cfg md time tt st i arr ! (i * 3 + 2) =
      lerp (arr ! (i * 3 + 2)) (if md = TREE then tt ! (i * 3 + 2) else st ! (i * 3 + 2))
        (lerpSpeed cfg)"
  using nth_setXYZ [OF assms]
  by (simp_all add: particleBody_def Let_def getX_def getY_def getZ_def)

lemma particleBody_cong:
  assumes "j div 3 = i" "\<And>k. k div 3 = i \<Longrightarrow> arr ! k = arr' ! k" "length arr = length arr'"
  shows "particleBody cfg md time tt st i arr ! j = particleBody cfg md time tt st i arr' ! j"
proof -
  have "(i * 3) div 3 = i" "(i * 3 + 1) div 3 = i" "(i * 3 + 2) div 3 = i"
    by simp_all
  then have e: "getX arr i = getX arr' i" "getY arr i = getY arr' i" "getZ arr i = getZ arr' i"
    unfolding getX_def getY_def getZ_def by (simp_all only: assms(2))
  have n: "arr ! j = arr' ! j"
    using assms(1) by (rule assms(2))
  show ?thesis
    unfolding particleBody_def Let_def e by (rule setXYZ_cong [OF assms(3) n])
qed

lemma forLoop_particleBody:
  assumes "j div 3 < n"
  shows "forLoop (particleBody cfg md time tt st) n arr ! j =
     particleBody cfg md time tt st (j div 3) arr ! j"
proof (rule forLoop_triple)
  show "\<And>i arr j. j div 3 \<noteq> i \<Longrightarrow> particleBody cfg md time tt st i arr ! j = arr ! j"
    by (rule particleBody_other)
  show "\<And>i arr arr' j. j div 3 = i \<Longrightarrow> (\<And>k. k div 3 = i \<Longrightarrow> arr ! k = arr' ! k) \<Longrightarrow>
      length arr = length arr' \<Longrightarrow>
      particleBody cfg md time tt st i arr ! j = particleBody cfg md time tt st i arr' ! j"
    by (rule particleBody_cong)
  show "\<And>i arr. length (particleBody cfg md time tt st i arr) = length arr"
    by (rule particleBody_length)
  show "j div 3 < n" by (rule assms)
qed

lemma updateParticles_positions:
  "positions (updateParticles cfg time w) =
     forLoop (particleBody cfg (mode w) time (treePositions w) (scatterPositions w))
       (particleCount cfg) (positions w)"
  by (simp add: updateParticles_def)

lemma updateParticles_nth:
  assumes "length (positions w) = 3 * particleCount cfg" "i < particleCount cfg"
  shows "positions (updateParticles cfg time w) ! (i * 3) =
      lerp (positions w ! (i * 3))
        (if mode w = TREE then treePositions w ! (i * 3) else scatterPositions w ! (i * 3))
        (lerpSpeed cfg)"
    and "positions (updateParticles cfg time w) ! (i * 3 + 1) =
      lerp (positions w ! (i * 3 + 1))
        (if mode w = TREE then treePositions w ! (i * 3 + 1)
         else scatterPositions w ! (i * 3 + 1) + sin (time + scatterPositions w ! (i * 3)) * 0.005)
        (lerpSpeed cfg)"
    and "positions (updateParticles cfg time w) ! (i * 3 + 2) =
      lerp (positions w ! (i * 3 + 2))
        (if mode w = TREE then treePositions w ! (i * 3 + 2) else scatterPositions w ! (i * 3 + 2))
        (lerpSpeed cfg)"
proof -
  let ?body = "particleBody cfg (mode w) time (treePositions w) (scatterPositions w)"
  from assms have r: "i * 3 + 2 < length (positions w)" by simp
  have q: "(i * 3) div 3 = i" "(i * 3 + 1) div 3 = i" "(i * 3 + 2) div 3 = i"
    by simp_all
  have f: "j div 3 = i \<Longrightarrow>
      positions (updateParticles cfg time w) ! j = ?body i (positions w) ! j" for j
    using forLoop_particleBody [of j "particleCount cfg" cfg "mode w" time
        "treePositions w" "scatterPositions w" "positions w"] assms(2)
    by (simp only: updateParticles_positions)
  show "positions (updateParticles cfg time w) ! (i * 3) =
      lerp (positions w ! (i * 3))
        (if mode w = TREE then treePositions w ! (i * 3) else scatterPositions w ! (i * 3))
        (lerpSpeed cfg)"
    by (simp only: f [OF q(1)] particleBody_own(1) [OF r])
  show "positions (updateParticles cfg time w) ! (i * 3 + 1) =
      lerp (positions w ! (i * 3 + 1))
        (if mode w = TREE then treePositions w ! (i * 3 + 1)
         else scatterPositions w ! (i * 3 + 1) + sin (time + scatterPositions w ! (i * 3)) * 0.005)
        (lerpSpeed cfg)"
    by (simp only: f [OF q(2)] particleBody_own(2) [OF r])
  show "positions (updateParticles cfg time w) ! (i * 3 + 2) =
      lerp (positions w ! (i * 3 + 2))
        (if mode w = TREE then treePositions w ! (i * 3 + 2) else scatterPositions w ! (i * 3 + 2))
        (lerpSpeed cfg)"
    by (simp only: f [OF q(3)] particleBody_own(3) [OF r])
qed

lemma animate_positions_nth:
  assumes "length (positions w) = 3 * particleCount cfg" "i < particleCount cfg"
  shows "positions (animate cfg env time w) ! (i * 3) =
      lerp (positions w ! (i * 3))
        (if mode w = TREE then treePositions w ! (i * 3) else scatterPositions w ! (i * 3))
        (lerpSpeed cfg)"
    and "positions (animate cfg env time w) ! (i * 3 + 1) =
      lerp (positions w ! (i * 3 + 1))
        (if mode w = TREE then treePositions w ! (i * 3 + 1)
         else scatterPositions w ! (i * 3 + 1) + sin (time + scatterPositions w ! (i * 3)) * 0.005)
        (lerpSpeed cfg)"
    and "positions (animate cfg env time w) ! (i * 3 + 2) =
      lerp (positions w ! (i * 3 + 2))
        (if mode w = TREE then treePositions w ! (i * 3 + 2) else scatterPositions w ! (i * 3 + 2))
        (lerpSpeed cfg)"
proof -
  let ?w = "updateSpiral cfg time (modeEdge env (updateVideoOpacity cfg (handleStateTransitions w)))"
  have l: "length (positions ?w) = 3 * particleCount cfg"
    using assms(1) by (simp only: updateSpiral_frame control_frame)
  have f: "positions ?w = positions w" "treePositions ?w = treePositions w"
    "scatterPositions ?w = scatterPositions w" "mode ?w = mode w"
    by (simp_all only: updateSpiral_frame updateSpiral_ctrl control_frame)
  show "positions (animate cfg env time w) ! (i * 3) =
      lerp (positions w ! (i * 3))
        (if mode w = TREE then treePositions w ! (i * 3) else scatterPositions w ! (i * 3))
        (lerpSpeed cfg)"
    using updateParticles_nth(1) [OF l assms(2), of time] by (simp only: animate_def f)
  show "positions (animate cfg env time w) ! (i * 3 + 1) =
      lerp (positions w ! (i * 3 + 1))
        (if mode w = TREE then treePositions w ! (i * 3 + 1)
         else scatterPositions w ! (i * 3 + 1) + sin (time + scatterPositions w ! (i * 3)) * 0.005)
        (lerpSpeed cfg)"
    using updateParticles_nth(2) [OF l assms(2), of time] by (simp only: animate_def f)
  show "positions (animate cfg env time w) ! (i * 3 + 2) =
      lerp (positions w ! (i * 3 + 2))
        (if mode w = TREE then treePositions w ! (i * 3 + 2) else scatterPositions w ! (i * 3 + 2))
        (lerpSpeed cfg)"
    using updateParticles_nth(3) [OF l assms(2), of time] by (simp only: animate_def f)
qed

subsection \<open>The spiral loop\<close>

lemma js_rem_range:
  assumes "0 \<le> a" "0 < b"
  shows "0 \<le> js_rem a b" "js_rem a b < b"
proof -
  from assms have q: "0 \<le> a / b" by simp
  have "of_int \<lfloor>a / b\<rfloor> \<le> a / b" by linarith
  with assms(2) have "b * of_int \<lfloor>a / b\<rfloor> \<le> b * (a / b)"
    by (intro mult_left_mono) simp_all
  with assms(2) have "b * of_int \<lfloor>a / b\<rfloor> \<le> a" by simp
  with q show "0 \<le> js_rem a b" by (simp add: js_rem_def trunc_def)
  have "a / b < of_int \<lfloor>a / b\<rfloor> + 1" by linarith
  with assms(2) have "b * (a / b) < b * (of_int \<lfloor>a / b\<rfloor> + 1)"
    by (intro mult_strict_left_mono) simp_all
  with assms(2) have "a < b * (of_int \<lfloor>a / b\<rfloor> + 1)" by simp
  with q show "js_rem a b < b" by (simp add: js_rem_def trunc_def algebra_simps)
qed

lemma spec_spiralHeight_unfold:
  "spec_spiralHeight cfg time i =
     (if real i / real (spiralCount cfg) * treeHeight cfg - treeHeight cfg / 2
           + js_rem (time * spiralSpeed cfg) (treeHeight cfg) > treeHeight cfg / 2
      then real i / real (spiralCount cfg) * treeHeight cfg - treeHeight cfg / 2
           + js_rem (time * spiralSpeed cfg) (treeHeight cfg) - treeHeight cfg
      else real i / real (spiralCount cfg) * treeHeight cfg - treeHeight cfg / 2
           + js_rem (time * spiralSpeed cfg) (treeHeight cfg))"
  by (simp only: spec_spiralHeight_def Let_def)

lemma spec_spiralHeight_range:
  assumes "0 \<le> time" "0 \<le> spiralSpeed cfg" "0 < treeHeight cfg" "i < spiralCount cfg"
  shows "- (treeHeight cfg / 2) \<le> spec_spiralHeight cfg time i"
    and "spec_spiralHeight cfg time i \<le> treeHeight cfg / 2"
proof -
  define H where "H = treeHeight cfg"
  define P where "P = real i / real (spiralCount cfg) * treeHeight cfg"
  define R where "R = js_rem (time * spiralSpeed cfg) (treeHeight cfg)"
  from assms(1,2) have "0 \<le> time * spiralSpeed cfg" by simp
  then have r: "0 \<le> R" "R < H"
    unfolding R_def H_def using assms(3) by (rule js_rem_range)+
  from assms(4) have p: "0 \<le> real i / real (spiralCount cfg)" "real i / real (spiralCount cfg) < 1"
    by simp_all
  from p(1) assms(3) have b1: "0 \<le> P" unfolding P_def by simp
  from p(2) assms(3) have "real i / real (spiralCount cfg) * treeHeight cfg < 1 * treeHeight cfg"
    by (rule mult_strict_right_mono)
  then have b2: "P < H" unfolding P_def H_def by simp
  have e: "spec_spiralHeight cfg time i =
      (if P - H / 2 + R > H / 2 then P - H / 2 + R - H else P - H / 2 + R)"
    unfolding P_def H_def R_def by (rule spec_spiralHeight_unfold)
  show "- (treeHeight cfg / 2) \<le> spec_spiralHeight cfg time i"
    unfolding e H_def [symmetric] using r b1 b2 by (simp split: if_splits)
  show "spec_spiralHeight cfg time i \<le> treeHeight cfg / 2"
    unfolding e H_def [symmetric] using r b1 b2 by (simp split: if_splits)
qed

lemma spec_spiralHeight_congruent:
  "\<exists>m::int. spec_spiralHeight cfg time i =
     real i / real (spiralCount cfg) * treeHeight cfg - treeHeight cfg / 2
       + time * spiralSpeed cfg - of_int m * treeHeight cfg"
proof -
  define H where "H = treeHeight cfg"
  define B where "B = real i / real (spiralCount cfg) * treeHeight cfg - treeHeight cfg / 2"
  define A where "A = time * spiralSpeed cfg"
  define T where "T = trunc (A / H)"
  have e: "spec_spiralHeight cfg time i =
      (if B + js_rem A H > H / 2 then B + js_rem A H - H else B + js_rem A H)"
    unfolding B_def H_def A_def by (rule spec_spiralHeight_unfold)
  have j: "js_rem A H = A - H * of_int T"
    by (simp add: js_rem_def T_def)
  have "\<exists>m::int. spec_spiralHeight cfg time i = B + A - of_int m * H"
  proof (cases "B + js_rem A H > H / 2")
    case True
    with e j have "spec_spiralHeight cfg time i = B + A - of_int (T + 1) * H"
      by (simp add: algebra_simps)
    then show ?thesis ..
  next
    case False
    with e j have "spec_spiralHeight cfg time i = B + A - of_int T * H"
      by (simp add: algebra_simps)
    then show ?thesis ..
  qed
  then show ?thesis unfolding B_def A_def H_def .
qed

lemma spiralBody_other:
  "j div 3 \<noteq> i \<Longrightarrow> spiralBody cfg md time sc i arr ! j = arr ! j"
  by (simp add: spiralBody_def Let_def nth_setXYZ_other)

lemma spiralBody_length:
  "length (spiralBody cfg md time sc i arr) = length arr"
  by (simp add: spiralBody_def Let_def length_setXYZ)

lemma spiralBody_writes:
  "\<exists>x y z. \<forall>arr. spiralBody cfg md time sc i arr = setXYZ arr i x y z"
  by (cases "md = TREE") (simp_all add: spiralBody_def Let_def, blast+)

lemma spiralBody_cong:
  assumes "j div 3 = i" "\<And>k. k div 3 = i \<Longrightarrow> arr ! k = arr' ! k" "length arr = length arr'"
  shows "spiralBody cfg md time sc i arr ! j = spiralBody cfg md time sc i arr' ! j"
proof -
  have n: "arr ! j = arr' ! j"
    using assms(1) by (rule assms(2))
  obtain x y z where e: "\<And>a. spiralBody cfg md time sc i a = setXYZ a i x y z"
    using spiralBody_writes by blast
  show ?thesis
    unfolding e by (rule setXYZ_cong [OF assms(3) n])
qed

lemma spiralBody_tree:
  assumes "i * 3 + 2 < length arr"
  shows "spiralBody cfg TREE time sc i arr ! (i * 3 + 1) = spec_spiralHeight cfg time i"
    and "spiralBody cfg TREE time sc i arr ! (i * 3) =
      cos (spec_spiralAngle cfg time (spec_normH cfg (spec_spiralHeight cfg time i)))
        * spec_spiralRadius cfg (spec_normH cfg (spec_spiralHeight cfg time i))"
    and "spiralBody cfg TREE time sc i arr ! (i * 3 + 2) =
      sin (spec_spiralAngle cfg time (spec_normH cfg (spec_spiralHeight cfg time i)))
        * spec_spiralRadius cfg (spec_normH cfg (spec_spiralHeight cfg time i))"
  using nth_setXYZ [OF assms]
  by (simp_all add: spiralBody_def Let_def spec_spiralHeight_def spec_normH_def
      spec_spiralAngle_def spec_spiralRadius_def mult.commute mult.left_commute)

lemma spiralBody_scatter:
  assumes "i * 3 + 2 < length arr" "md \<noteq> TREE"
  shows "spiralBody cfg md time sc i arr ! (i * 3) = sc ! (i * 3)"
    and "spiralBody cfg md time sc i arr ! (i * 3 + 1) = sc ! (i * 3 + 1)"
    and "spiralBody cfg md time sc i arr ! (i * 3 + 2) = sc ! (i * 3 + 2)"
  using nth_setXYZ [OF assms(1)] assms(2)
  by (simp_all add: spiralBody_def Let_def)

lemma forLoop_spiralBody:
  assumes "j div 3 < n"
  shows "forLoop (spiralBody cfg md time sc) n arr ! j = spiralBody cfg md time sc (j div 3) arr ! j"
proof (rule forLoop_triple)
  show "\<And>i arr j. j div 3 \<noteq> i \<Longrightarrow> spiralBody cfg md time sc i arr ! j = arr ! j"
    by (rule spiralBody_other)
  show "\<And>i arr arr' j. j div 3 = i \<Longrightarrow> (\<And>k. k div 3 = i \<Longrightarrow> arr ! k = arr' ! k) \<Longrightarrow>
      length arr = length arr' \<Longrightarrow>
      spiralBody cfg md time sc i arr ! j = spiralBody cfg md time sc i arr' ! j"
    by (rule spiralBody_cong)
  show "\<And>i arr. length (spiralBody cfg md time sc i arr) = length arr"
    by (rule spiralBody_length)
  show "j div 3 < n" by (rule assms)
qed

lemma updateSpiral_spiralPos:
  "spiralPos (updateSpiral cfg time w) =
     forLoop (spiralBody cfg (mode w) time (spiralScatterCoords w)) (spiralCount cfg) (spiralPos w)"
  by (simp add: updateSpiral_def)

lemma updateSpiral_nth:
  assumes "i < spiralCount cfg" "j div 3 = i"
  shows "spiralPos (updateSpiral cfg time w) ! j =
     spiralBody cfg (mode w) time (spiralScatterCoords w) i (spiralPos w) ! j"
  using forLoop_spiralBody [of j "spiralCount cfg" cfg "mode w" time "spiralScatterCoords w"
      "spiralPos w"] assms
  by (simp only: updateSpiral_spiralPos)

lemma animate_spiralPos_nth:
  assumes "i < spiralCount cfg" "j div 3 = i"
  shows "spiralPos (animate cfg env time w) ! j =
     spiralBody cfg (mode w) time (spiralScatterCoords w) i (spiralPos w) ! j"
proof -
  let ?w = "modeEdge env (updateVideoOpacity cfg (handleStateTransitions w))"
  have "spiralPos (animate cfg env time w) ! j = spiralPos (updateSpiral cfg time ?w) ! j"
    by (simp only: animate_def updateParticles_frame)
  also have "\<dots> = spiralBody cfg (mode ?w) time (spiralScatterCoords ?w) i (spiralPos ?w) ! j"
    using assms by (rule updateSpiral_nth)
  finally show ?thesis by (simp only: control_frame)
qed

subsection \<open>Startup and the invariants of the event loop\<close>

lemma length_pushLoop:
  assumes "\<And>i. length (item i) = 3"
  shows "length (pushLoop item n) = 3 * n"
  by (induction n) (simp_all add: assms)

lemma nth_pushLoop:
  assumes "\<And>i. length (item i) = 3"
  shows "i < n \<Longrightarrow> k < 3 \<Longrightarrow> pushLoop item n ! (i * 3 + k) = item i ! k"
proof (induction n)
  case 0
  then show ?case by simp
next
  case (Suc n)
  have l: "length (pushLoop item n) = 3 * n"
    using assms by (rule length_pushLoop)
  show ?case
  proof (cases "i < n")
    case True
    with Suc.prems have "i * 3 + k < length (pushLoop item n)"
      unfolding l by simp
    with True Suc show ?thesis by (simp add: nth_append)
  next
    case False
    with Suc.prems have "i = n" by simp
    then show ?thesis by (simp add: nth_append l)
  qed
qed

lemma length_points:
  "length (treePoint cfg rnd i) = 3" "length (scatterPoint cfg rnd i) = 3"
  "length (spiralTreePoint cfg i) = 3" "length (spiralScatterPoint cfg rnd i) = 3"
  by (simp_all add: treePoint_def scatterPoint_def spiralTreePoint_def spiralScatterPoint_def Let_def)

lemma wellFormed_initWorld: "wellFormed cfg (initWorld cfg rnd p m)"
  by (simp add: wellFormed_def initWorld_def length_pushLoop length_points)

lemma scatterPositions_init_nth:
  assumes "i < particleCount cfg" "k < 3"
  shows "scatterPositions (initWorld cfg rnd p m) ! (i * 3 + k) = scatterPoint cfg rnd i ! k"
  using assms by (simp add: initWorld_def nth_pushLoop length_points)

lemma step_tables:
  "treePositions (step cfg w ev) = treePositions w
   \<and> scatterPositions (step cfg w ev) = scatterPositions w
   \<and> spiralScatterCoords (step cfg w ev) = spiralScatterCoords w"
proof (cases ev)
  case (HandsResults env r)
  then show ?thesis
    by (cases r; cases "the r")
       (simp_all add: onHandsResults_def classifyOpenClosed_def detectPinch_def videoPlay_def Let_def)
next
  case (Tick env t)
  then show ?thesis by (simp add: animate_tables)
qed (simp_all add: autoplayThen_def autoplayCatch_def onVideoPlaying_def onVideoPause_def
    handleOverlayClick_def overlayStartVideo_def videoPlay_def)

lemma run_tables:
  "treePositions (run cfg w evs) = treePositions w
   \<and> scatterPositions (run cfg w evs) = scatterPositions w
   \<and> spiralScatterCoords (run cfg w evs) = spiralScatterCoords w"
  unfolding run_def
  by (induction evs arbitrary: w) (simp_all add: step_tables)

lemma animate_lengths:
  "length (positions (animate cfg env t w)) = length (positions w)"
  "length (spiralPos (animate cfg env t w)) = length (spiralPos w)"
proof -
  show "length (positions (animate cfg env t w)) = length (positions w)"
    by (simp add: animate_def updateParticles_positions updateSpiral_frame control_frame
        forLoop_length particleBody_length)
  show "length (spiralPos (animate cfg env t w)) = length (spiralPos w)"
    by (simp add: animate_def updateParticles_frame updateSpiral_spiralPos control_frame
        forLoop_length spiralBody_length)
qed

lemma step_lengths:
  "length (positions (step cfg w ev)) = length (positions w)
   \<and> length (spiralPos (step cfg w ev)) = length (spiralPos w)"
proof (cases ev)
  case (HandsResults env r)
  then show ?thesis
    by (cases r; cases "the r")
       (simp_all add: onHandsResults_def classifyOpenClosed_def detectPinch_def videoPlay_def Let_def)
next
  case (Tick env t)
  then show ?thesis by (simp add: animate_lengths)
qed (simp_all add: autoplayThen_def autoplayCatch_def onVideoPlaying_def onVideoPause_def
    handleOverlayClick_def overlayStartVideo_def videoPlay_def)

lemma wellFormed_step: "wellFormed cfg w \<Longrightarrow> wellFormed cfg (step cfg w ev)"
  by (simp add: wellFormed_def step_tables step_lengths)

lemma wellFormed_run: "wellFormed cfg w \<Longrightarrow> wellFormed cfg (run cfg w evs)"
  unfolding run_def
  by (induction evs arbitrary: w) (simp_all add: wellFormed_step)

lemma sphere_norm:
  "(r * sin p * cos t)\<^sup>2 + (r * sin p * sin t)\<^sup>2 + (r * cos p)\<^sup>2 = (r::real)\<^sup>2"
  using sin_cos_squared_add [of p] sin_cos_squared_add [of t] by algebra

lemma root3_eighth: "root 3 (1 / 8) = 1 / 2"
proof -
  have "root 3 ((1 / 2) ^ 3) = (1 / 2 :: real)"
    by (rule odd_real_root_power_cancel) simp
  then show ?thesis by (simp add: power3_eq_cube)
qed

section \<open>The claims\<close>

subsection \<open>Blending of the main cloud (C1)\<close>

text \<open>
  Claim C1, as the program has it. In a well-formed state, for particle \<open>i\<close> of the main
  cloud and axis \<open>k\<close>: no sequence of callbacks changes the tree table or the scatter
  table. In TREE mode one frame moves the live coordinate by
  \<open>v \<leftarrow> v + (t - v) * lerpSpeed\<close> towards the tree table entry \<open>t\<close>, and the distance
  to that entry shrinks by the factor \<open>1 - lerpSpeed\<close>. In SCATTER mode the same holds
  for the x and z axes and the scatter table. On the y axis in SCATTER mode the target
  is not the table entry but the entry plus \<open>sin (time + x entry) * 0.005\<close>, which
  depends on the elapsed time; the live coordinate is blended towards that sum and
  its distance to that sum shrinks by the factor \<open>1 - lerpSpeed\<close>.
\<close>

theorem main_cloud_blend:
  assumes "wellFormed cfg w" "i < particleCount cfg" "k < 3"
    "0 \<le> lerpSpeed cfg" "lerpSpeed cfg \<le> 1"
  shows "treePositions (run cfg w evs) = treePositions w
    \<and> scatterPositions (run cfg w evs) = scatterPositions w
    \<and> (mode w = TREE \<longrightarrow>
         positions (animate cfg env time w) ! (i * 3 + k) =
           positions w ! (i * 3 + k)
             + (treePositions w ! (i * 3 + k) - positions w ! (i * 3 + k)) * lerpSpeed cfg
         \<and> \<bar>positions (animate cfg env time w) ! (i * 3 + k) - treePositions w ! (i * 3 + k)\<bar> =
           \<bar>positions w ! (i * 3 + k) - treePositions w ! (i * 3 + k)\<bar> * (1 - lerpSpeed cfg))
    \<and> (mode w = SCATTER \<and> k \<noteq> 1 \<longrightarrow>
         positions (animate cfg env time w) ! (i * 3 + k) =
           positions w ! (i * 3 + k)
             + (scatterPositions w ! (i * 3 + k) - positions w ! (i * 3 + k)) * lerpSpeed cfg
         \<and> \<bar>positions (animate cfg env time w) ! (i * 3 + k) - scatterPositions w ! (i * 3 + k)\<bar> =
           \<bar>positions w ! (i * 3 + k) - scatterPositions w ! (i * 3 + k)\<bar> * (1 - lerpSpeed cfg))
    \<and> (mode w = SCATTER \<longrightarrow>
         positions (animate cfg env time w) ! (i * 3 + 1) =
           positions w ! (i * 3 + 1)
             + (scatterPositions w ! (i * 3 + 1) + sin (time + scatterPositions w ! (i * 3)) * 0.005
                 - positions w ! (i * 3 + 1)) * lerpSpeed cfg
         \<and> \<bar>positions (animate cfg env time w) ! (i * 3 + 1)
              - (scatterPositions w ! (i * 3 + 1) + sin (time + scatterPositions w ! (i * 3)) * 0.005)\<bar> =
           \<bar>positions w ! (i * 3 + 1)
              - (scatterPositions w ! (i * 3 + 1) + sin (time + scatterPositions w ! (i * 3)) * 0.005)\<bar>
             * (1 - lerpSpeed cfg))"
proof -
  from assms(1) have len: "length (positions w) = 3 * particleCount cfg"
    by (simp add: wellFormed_def)
  note p = animate_positions_nth [OF len assms(2), of env time]
  note d = lerp_distance [OF assms(4,5)]
  from assms(3) have k: "k = 0 \<or> k = 1 \<or> k = 2"
    by arith
  have tree: "mode w = TREE \<longrightarrow>
         positions (animate cfg env time w) ! (i * 3 + k) =
           positions w ! (i * 3 + k)
             + (treePositions w ! (i * 3 + k) - positions w ! (i * 3 + k)) * lerpSpeed cfg
         \<and> \<bar>positions (animate cfg env time w) ! (i * 3 + k) - treePositions w ! (i * 3 + k)\<bar> =
           \<bar>positions w ! (i * 3 + k) - treePositions w ! (i * 3 + k)\<bar> * (1 - lerpSpeed cfg)"
    using k p d by (elim disjE) (simp_all add: lerp_blend [symmetric])
  have scat: "mode w = SCATTER \<and> k \<noteq> 1 \<longrightarrow>
         positions (animate cfg env time w) ! (i * 3 + k) =
           positions w ! (i * 3 + k)
             + (scatterPositions w ! (i * 3 + k) - positions w ! (i * 3 + k)) * lerpSpeed cfg
         \<and> \<bar>positions (animate cfg env time w) ! (i * 3 + k) - scatterPositions w ! (i * 3 + k)\<bar> =
           \<bar>positions w ! (i * 3 + k) - scatterPositions w ! (i * 3 + k)\<bar> * (1 - lerpSpeed cfg)"
    using k p d by (elim disjE) (simp_all add: lerp_blend [symmetric])
  have noisy: "mode w = SCATTER \<longrightarrow>
         positions (animate cfg env time w) ! (i * 3 + 1) =
           positions w ! (i * 3 + 1)
             + (scatterPositions w ! (i * 3 + 1) + sin (time + scatterPositions w ! (i * 3)) * 0.005
                 - positions w ! (i * 3 + 1)) * lerpSpeed cfg
         \<and> \<bar>positions (animate cfg env time w) ! (i * 3 + 1)
              - (scatterPositions w ! (i * 3 + 1) + sin (time + scatterPositions w ! (i * 3)) * 0.005)\<bar> =
           \<bar>positions w ! (i * 3 + 1)
              - (scatterPositions w ! (i * 3 + 1) + sin (time + scatterPositions w ! (i * 3)) * 0.005)\<bar>
             * (1 - lerpSpeed cfg)"
    using p(2) d by (simp add: lerp_blend [symmetric])
  from run_tables [of cfg w evs] tree scat noisy show ?thesis by blast
qed

text \<open>Claim C1 as stated fails on the y axis in SCATTER mode. At elapsed time 1,
  particle 0 (y = 1, table entry 0) does not end at distance 0.95 from its table entry,
  and particle 1, which sits exactly on its table entry, is moved away from it.\<close>

theorem scatter_noise_moves_target:
  "\<bar>positions (animate tinyConfig accepting 1 cloudWorld) ! 1 - scatterPositions cloudWorld ! 1\<bar> \<noteq>
     \<bar>positions cloudWorld ! 1 - scatterPositions cloudWorld ! 1\<bar> * (1 - lerpSpeed tinyConfig)
   \<and> \<bar>positions (animate tinyConfig accepting 1 cloudWorld) ! 4 - scatterPositions cloudWorld ! 4\<bar> >
     \<bar>positions cloudWorld ! 4 - scatterPositions cloudWorld ! 4\<bar>"
proof -
  have len: "length (positions cloudWorld) = 3 * particleCount tinyConfig"
    by (simp add: cloudWorld_def tinyConfig_def)
  have s: "0 < sin (1::real)"
    by (rule sin_gt_zero_02) simp_all
  have "positions (animate tinyConfig accepting 1 cloudWorld) ! 1 = lerp 1 (sin 1 / 200) (1 / 20)"
    using animate_positions_nth(2) [OF len, of 0 accepting 1]
    by (simp add: cloudWorld_def scatterWorld_def treeWorld_def tinyConfig_def CONFIG_def)
  then have a: "positions (animate tinyConfig accepting 1 cloudWorld) ! 1 = 19 / 20 + sin 1 / 4000"
    by (simp add: lerp_def)
  have "positions (animate tinyConfig accepting 1 cloudWorld) ! 4 = lerp 4 (4 + sin 1 / 200) (1 / 20)"
    using animate_positions_nth(2) [OF len, of 1 accepting 1]
    by (simp add: cloudWorld_def scatterWorld_def treeWorld_def tinyConfig_def CONFIG_def)
  then have b: "positions (animate tinyConfig accepting 1 cloudWorld) ! 4 = 4 + sin 1 / 4000"
    by (simp add: lerp_def field_simps)
  show ?thesis
    unfolding a b using s
    by (simp add: cloudWorld_def scatterWorld_def treeWorld_def tinyConfig_def CONFIG_def)
qed

theorem main_cloud_blend_witness:
  "wellFormed tinyConfig cloudWorld \<and> (1::nat) < particleCount tinyConfig
   \<and> 0 \<le> lerpSpeed tinyConfig \<and> lerpSpeed tinyConfig \<le> 1
   \<and> treePositions (run tinyConfig treeWorld
        [HandsResults accepting (Some [handAt 0.5 0.9 1]), Tick accepting 1]) = [0, 1, 0, 2, 0, 0]
   \<and> positions (animate tinyConfig accepting 1 (cloudWorld\<lparr> mode := TREE \<rparr>)) ! 3 = 1 / 10
   \<and> positions (animate tinyConfig accepting 1 (cloudWorld\<lparr> mode := TREE \<rparr>)) ! 4 = 19 / 5
   \<and> positions (animate tinyConfig accepting 1 cloudWorld) ! 2 = 0
   \<and> positions (animate tinyConfig accepting 1 cloudWorld) ! 1 = 19 / 20 + sin 1 / 4000"
proof -
  note defs = wellFormed_def tinyConfig_def CONFIG_def treeWorld_def scatterWorld_def cloudWorld_def
  have w: "wellFormed tinyConfig (cloudWorld\<lparr> mode := TREE \<rparr>)"
    "wellFormed tinyConfig cloudWorld" "wellFormed tinyConfig treeWorld"
    by (simp_all add: defs)
  have c: "(1::nat) < particleCount tinyConfig" "0 < particleCount tinyConfig"
    "0 \<le> lerpSpeed tinyConfig" "lerpSpeed tinyConfig \<le> 1"
    by (simp_all add: tinyConfig_def CONFIG_def)
  have k: "(0::nat) < 3" "(1::nat) < 3" "(2::nat) < 3"
    by simp_all
  have t: "treePositions (run tinyConfig treeWorld
        [HandsResults accepting (Some [handAt 0.5 0.9 1]), Tick accepting 1]) = [0, 1, 0, 2, 0, 0]"
    using main_cloud_blend [OF w(3) c(1) k(1) c(3) c(4),
        of "[HandsResults accepting (Some [handAt 0.5 0.9 1]), Tick accepting 1]" accepting 1]
    by (simp add: treeWorld_def)
  have p3: "positions (animate tinyConfig accepting 1 (cloudWorld\<lparr> mode := TREE \<rparr>)) ! 3 = 1 / 10"
    using main_cloud_blend [OF w(1) c(1) k(1) c(3) c(4), of "[]" accepting 1]
    by (simp add: defs)
  have p4: "positions (animate tinyConfig accepting 1 (cloudWorld\<lparr> mode := TREE \<rparr>)) ! 4 = 19 / 5"
    using main_cloud_blend [OF w(1) c(1) k(2) c(3) c(4), of "[]" accepting 1]
    by (simp add: defs)
  have p2: "positions (animate tinyConfig accepting 1 cloudWorld) ! 2 = 0"
    using main_cloud_blend [OF w(2) c(2) k(3) c(3) c(4), of "[]" accepting 1]
    by (simp add: defs numeral_2_eq_2)
  have "positions (animate tinyConfig accepting 1 cloudWorld) ! 1 = 1 + (sin 1 / 200 - 1) / 20"
    using main_cloud_blend [OF w(2) c(2) k(2) c(3) c(4), of "[]" accepting 1]
    by (simp add: defs)
  then have p1: "positions (animate tinyConfig accepting 1 cloudWorld) ! 1 = 19 / 20 + sin 1 / 4000"
    by (simp add: field_simps)
  from w(2) c(1,3,4) t p3 p4 p2 p1 show ?thesis by blast
qed

subsection \<open>The thresholds of the open and closed hand (C2)\<close>

text \<open>
  Claim C2. With a hand present, an average wrist-to-fingertip distance below 0.25
  sets the gesture to CLOSED and the mode to TREE; one above 0.35 sets OPEN and
  SCATTER; one in \<open>[0.25, 0.35]\<close> leaves the state as it is. At the end of the callback
  the mode is the one so chosen, and so is the gesture unless the pinch test replaced
  it.
\<close>

theorem open_closed_thresholds:
  "(avgDist lm < 0.25 \<longrightarrow>
      classifyOpenClosed (avgDist lm) w = w\<lparr> gesture := CLOSED, mode := TREE \<rparr>
      \<and> mode (onHandsResults env (Some (lm # rest)) w) = TREE
      \<and> (\<not> pinchDist lm < 0.05 \<longrightarrow> gesture (onHandsResults env (Some (lm # rest)) w) = CLOSED))
   \<and> (avgDist lm > 0.35 \<longrightarrow>
      classifyOpenClosed (avgDist lm) w = w\<lparr> gesture := OPEN, mode := SCATTER \<rparr>
      \<and> mode (onHandsResults env (Some (lm # rest)) w) = SCATTER
      \<and> (\<not> pinchDist lm < 0.05 \<longrightarrow> gesture (onHandsResults env (Some (lm # rest)) w) = OPEN))
   \<and> (0.25 \<le> avgDist lm \<and> avgDist lm \<le> 0.35 \<longrightarrow>
      classifyOpenClosed (avgDist lm) w = w
      \<and> mode (onHandsResults env (Some (lm # rest)) w) = mode w
      \<and> (\<not> pinchDist lm < 0.05 \<longrightarrow> gesture (onHandsResults env (Some (lm # rest)) w) = gesture w))"
  by (simp add: onHandsResults_hand detectPinch_mode detectPinch_gesture classify_mode classify_gesture)
     (simp add: classifyOpenClosed_def)

theorem open_closed_thresholds_witness:
  "avgDist (handAt 0.5 0.74 1) < 0.25
   \<and> mode (onHandsResults accepting (Some [handAt 0.5 0.74 1]) scatterWorld) = TREE
   \<and> gesture (onHandsResults accepting (Some [handAt 0.5 0.74 1]) scatterWorld) = CLOSED
   \<and> avgDist (handAt 0.5 0.86 1) > 0.35
   \<and> mode (onHandsResults accepting (Some [handAt 0.5 0.86 1]) treeWorld) = SCATTER
   \<and> gesture (onHandsResults accepting (Some [handAt 0.5 0.86 1]) treeWorld) = OPEN
   \<and> 0.25 \<le> avgDist (handAt 0.5 0.8 1) \<and> avgDist (handAt 0.5 0.8 1) \<le> 0.35
   \<and> mode (onHandsResults accepting (Some [handAt 0.5 0.8 1]) treeWorld) = TREE
   \<and> gesture (onHandsResults accepting (Some [handAt 0.5 0.8 1]) treeWorld) = NONE"
  using open_closed_thresholds [of "handAt 0.5 0.74 1" scatterWorld accepting "[]"]
    open_closed_thresholds [of "handAt 0.5 0.86 1" treeWorld accepting "[]"]
    open_closed_thresholds [of "handAt 0.5 0.8 1" treeWorld accepting "[]"]
  by (simp add: avgDist_handAt pinchDist_handAt treeWorld_def)

subsection \<open>The pinch and the start of the video (C3)\<close>

text \<open>
  Claim C3. When the thumb tip and the index tip are closer than 0.05 the gesture
  ends as PINCH, and \<open>play()\<close> is called in this callback exactly when the mode, as
  the pinch test reads it after the open/closed classification of the same callback,
  is SCATTER, the overlay opacity exceeds 0.8 and the video is not marked as playing;
  the flag is then set. Otherwise no call is made and the flag keeps its value. A
  callback that follows one which started the video makes no further call.
\<close>

theorem pinch_play_gate:
  assumes "pinchDist lm < 0.05"
  shows "gesture (onHandsResults env (Some (lm # rest)) w) = PINCH
    \<and> (videoLog (onHandsResults env (Some (lm # rest)) w) \<noteq> videoLog w) =
        (mode (onHandsResults env (Some (lm # rest)) w) = SCATTER \<and> videoOpacity w > 0.8
          \<and> \<not> isPlayingVideo w)
    \<and> videoLog (onHandsResults env (Some (lm # rest)) w) =
        (if mode (onHandsResults env (Some (lm # rest)) w) = SCATTER \<and> videoOpacity w > 0.8
            \<and> \<not> isPlayingVideo w
         then videoLog w @ [Play (videoMuted w)] else videoLog w)
    \<and> isPlayingVideo (onHandsResults env (Some (lm # rest)) w) =
        (isPlayingVideo w \<or>
          (mode (onHandsResults env (Some (lm # rest)) w) = SCATTER \<and> videoOpacity w > 0.8))
    \<and> mode (onHandsResults env (Some (lm # rest)) w) =
        (if avgDist lm < 0.25 then TREE else if avgDist lm > 0.35 then SCATTER else mode w)
    \<and> (videoLog (onHandsResults env (Some (lm # rest)) w) \<noteq> videoLog w \<longrightarrow>
        videoLog (onHandsResults env2 r2 (onHandsResults env (Some (lm # rest)) w)) =
          videoLog (onHandsResults env (Some (lm # rest)) w))"
proof -
  let ?w' = "onHandsResults env (Some (lm # rest)) w"
  have g: "gesture ?w' = PINCH"
    using assms by (simp add: onHandsResults_hand detectPinch_gesture)
  have m: "mode ?w' = (if avgDist lm < 0.25 then TREE else if avgDist lm > 0.35 then SCATTER else mode w)"
    by (simp add: onHandsResults_hand detectPinch_mode classify_mode)
  have l: "videoLog ?w' =
        (if mode ?w' = SCATTER \<and> videoOpacity w > 0.8 \<and> \<not> isPlayingVideo w
         then videoLog w @ [Play (videoMuted w)] else videoLog w)"
    using assms by (simp add: onHandsResults_hand detectPinch_mode detectPinch_log classify_frame)
  have f: "isPlayingVideo ?w' = (isPlayingVideo w \<or> (mode ?w' = SCATTER \<and> videoOpacity w > 0.8))"
    using assms by (simp add: onHandsResults_hand detectPinch_mode detectPinch_flag classify_frame)
  have r: "(videoLog ?w' \<noteq> videoLog w) = (mode ?w' = SCATTER \<and> videoOpacity w > 0.8 \<and> \<not> isPlayingVideo w)"
    by (subst l) simp
  have again: "videoLog ?w' \<noteq> videoLog w \<longrightarrow>
      videoLog (onHandsResults env2 r2 ?w') = videoLog ?w'"
  proof
    assume "videoLog ?w' \<noteq> videoLog w"
    with r f have "isPlayingVideo ?w'" by simp
    then show "videoLog (onHandsResults env2 r2 ?w') = videoLog ?w'"
      by (rule onHandsResults_log_playing)
  qed
  from g r l f m again show ?thesis by blast
qed

theorem pinch_play_gate_witness:
  "pinchDist (handAt 0.5 0.9 0.9) < 0.05
   \<and> gesture (onHandsResults accepting (Some [handAt 0.5 0.9 0.9]) scatterWorld) = PINCH
   \<and> videoLog (onHandsResults accepting (Some [handAt 0.5 0.9 0.9]) scatterWorld) = [Play False]
   \<and> isPlayingVideo (onHandsResults accepting (Some [handAt 0.5 0.9 0.9]) scatterWorld)
   \<and> videoLog (onHandsResults accepting (Some [handAt 0.5 0.9 0.9])
        (onHandsResults accepting (Some [handAt 0.5 0.9 0.9]) scatterWorld)) = [Play False]
   \<and> videoLog (onHandsResults accepting (Some [handAt 0.5 0.9 0.9])
        (scatterWorld\<lparr> videoOpacity := 0.5 \<rparr>)) = []
   \<and> videoLog (onHandsResults accepting (Some [handAt 0.5 0.7 0.7])
        (treeWorld\<lparr> videoOpacity := 0.85 \<rparr>)) = []"
  using pinch_play_gate [of "handAt 0.5 0.9 0.9" accepting "[]" scatterWorld accepting "Some [handAt 0.5 0.9 0.9]"]
    pinch_play_gate [of "handAt 0.5 0.9 0.9" accepting "[]" "scatterWorld\<lparr> videoOpacity := 0.5 \<rparr>"]
    pinch_play_gate [of "handAt 0.5 0.7 0.7" accepting "[]" "treeWorld\<lparr> videoOpacity := 0.85 \<rparr>"]
  by (simp add: avgDist_handAt pinchDist_handAt treeWorld_def scatterWorld_def)

subsection \<open>When the playing flag is set (C4)\<close>

text \<open>
  Claim C4 says that on both paths that ask for playback, the pinch and the entry
  into SCATTER, the flag \<open>isPlayingVideo\<close> becomes true only once the attempt has
  succeeded. The pinch branch does otherwise. In SCATTER mode with the overlay at
  opacity 0.9, the flag false and a browser that refuses to play, one pinch callback
  ends with the flag set although the video is still paused and no continuation was
  registered or has run; a second pinch, now with a browser that would play, finds the
  flag set and makes no further call, so the video stays paused and marked as playing.
\<close>

theorem pinch_marks_playing_before_success:
  "\<not> isPlayingVideo scatterWorld
   \<and> isPlayingVideo (run tinyConfig scatterWorld [HandsResults refusing (Some [handAt 0.5 0.9 0.9])])
   \<and> videoPaused (run tinyConfig scatterWorld [HandsResults refusing (Some [handAt 0.5 0.9 0.9])])
   \<and> videoLog (run tinyConfig scatterWorld [HandsResults refusing (Some [handAt 0.5 0.9 0.9])])
       = [Play False]
   \<and> pendingAutoplay (run tinyConfig scatterWorld
        [HandsResults refusing (Some [handAt 0.5 0.9 0.9])]) = 0
   \<and> isPlayingVideo (run tinyConfig scatterWorld
        [HandsResults refusing (Some [handAt 0.5 0.9 0.9]),
         HandsResults accepting (Some [handAt 0.5 0.9 0.9])])
   \<and> videoPaused (run tinyConfig scatterWorld
        [HandsResults refusing (Some [handAt 0.5 0.9 0.9]),
         HandsResults accepting (Some [handAt 0.5 0.9 0.9])])
   \<and> videoLog (run tinyConfig scatterWorld
        [HandsResults refusing (Some [handAt 0.5 0.9 0.9]),
         HandsResults accepting (Some [handAt 0.5 0.9 0.9])]) = [Play False]"
  by (simp add: run_def onHandsResults_hand detectPinch_def classifyOpenClosed_def videoPlay_def
      avgDist_handAt pinchDist_handAt scatterWorld_def treeWorld_def refusing_def)

text \<open>What each path does. A frame never turns the flag from false to true: on
  entering SCATTER it calls \<open>play()\<close>, leaves the flag alone and registers the
  continuations of the promise; the success continuation sets the flag and the
  failure continuation leaves it. The pinch branch sets the flag in the callback
  itself, together with the call of \<open>play()\<close>.\<close>

theorem play_flag_by_path:
  "(isPlayingVideo (animate cfg env time w) \<longrightarrow> isPlayingVideo w)
   \<and> (mode w \<noteq> prevMode w \<and> mode w = SCATTER \<longrightarrow>
        isPlayingVideo (animate cfg env time w) = isPlayingVideo w
        \<and> pendingAutoplay (animate cfg env time w) =
            pendingAutoplay w + (if playOutcome env = PlayReturnsPromise then 1 else 0))
   \<and> isPlayingVideo (step cfg w AutoplayResolved) = (isPlayingVideo w \<or> 0 < pendingAutoplay w)
   \<and> isPlayingVideo (step cfg w AutoplayRejected) = isPlayingVideo w
   \<and> (pinchDist lm < 0.05 \<and> mode (onHandsResults env (Some (lm # rest)) w) = SCATTER
        \<and> videoOpacity w > 0.8 \<and> \<not> isPlayingVideo w \<longrightarrow>
        isPlayingVideo (onHandsResults env (Some (lm # rest)) w)
        \<and> videoLog (onHandsResults env (Some (lm # rest)) w) = videoLog w @ [Play (videoMuted w)]
        \<and> pendingAutoplay (onHandsResults env (Some (lm # rest)) w) = pendingAutoplay w)"
proof -
  have a: "isPlayingVideo (animate cfg env time w) \<longrightarrow> isPlayingVideo w"
    by (simp add: animate_ctrl)
  have b: "mode w \<noteq> prevMode w \<and> mode w = SCATTER \<longrightarrow>
        isPlayingVideo (animate cfg env time w) = isPlayingVideo w
        \<and> pendingAutoplay (animate cfg env time w) =
            pendingAutoplay w + (if playOutcome env = PlayReturnsPromise then 1 else 0)"
    by (simp add: animate_ctrl)
  have c: "isPlayingVideo (step cfg w AutoplayResolved) = (isPlayingVideo w \<or> 0 < pendingAutoplay w)"
    by (simp add: autoplayThen_def)
  have d: "isPlayingVideo (step cfg w AutoplayRejected) = isPlayingVideo w"
    by (simp add: autoplayCatch_def)
  have e: "pinchDist lm < 0.05 \<and> mode (onHandsResults env (Some (lm # rest)) w) = SCATTER
        \<and> videoOpacity w > 0.8 \<and> \<not> isPlayingVideo w \<longrightarrow>
        isPlayingVideo (onHandsResults env (Some (lm # rest)) w)
        \<and> videoLog (onHandsResults env (Some (lm # rest)) w) = videoLog w @ [Play (videoMuted w)]
        \<and> pendingAutoplay (onHandsResults env (Some (lm # rest)) w) = pendingAutoplay w"
    by (simp add: onHandsResults_hand detectPinch_mode detectPinch_flag detectPinch_log classify_frame
        detectPinch_def classifyOpenClosed_def videoPlay_def Let_def)
  from a b c d e show ?thesis by blast
qed

theorem play_flag_by_path_witness:
  "mode (scatterWorld\<lparr> prevMode := TREE \<rparr>) \<noteq> prevMode (scatterWorld\<lparr> prevMode := TREE \<rparr>)
   \<and> \<not> isPlayingVideo (animate tinyConfig accepting 1 (scatterWorld\<lparr> prevMode := TREE \<rparr>))
   \<and> pendingAutoplay (animate tinyConfig accepting 1 (scatterWorld\<lparr> prevMode := TREE \<rparr>)) = 1
   \<and> \<not> isPlayingVideo (run tinyConfig (scatterWorld\<lparr> prevMode := TREE \<rparr>)
          [Tick accepting 1, AutoplayRejected])
   \<and> isPlayingVideo (run tinyConfig (scatterWorld\<lparr> prevMode := TREE \<rparr>)
          [Tick accepting 1, AutoplayResolved])
   \<and> pinchDist (handAt 0.5 0.9 0.9) < 0.05
   \<and> isPlayingVideo (onHandsResults refusing (Some [handAt 0.5 0.9 0.9]) scatterWorld)"
  using play_flag_by_path [of tinyConfig accepting 1 "scatterWorld\<lparr> prevMode := TREE \<rparr>" "handAt 0.5 0.9 0.9" "[]"]
    play_flag_by_path [of tinyConfig accepting 1 "animate tinyConfig accepting 1 (scatterWorld\<lparr> prevMode := TREE \<rparr>)"]
    play_flag_by_path [of tinyConfig refusing 1 scatterWorld "handAt 0.5 0.9 0.9" "[]"]
  by (simp add: run_def scatterWorld_def treeWorld_def accepting_def
      avgDist_handAt pinchDist_handAt onHandsResults_hand detectPinch_mode classify_mode animate_ctrl)

subsection \<open>The side effects of a mode change (C5)\<close>

text \<open>
  Claim C5. On the frame where the mode differs from the recorded one: entering
  SCATTER makes exactly one call of \<open>play()\<close>, muted if and only if the user has not
  interacted; leaving SCATTER ends with the video paused and the flag cleared. The
  mode is recorded as previous on that frame whatever the browser does with the
  request. On a frame where the mode is the recorded one no \<open>play()\<close> is called, and
  the frame that follows any frame makes no call on the video at all.
\<close>

theorem mode_edge_once:
  "(mode w \<noteq> prevMode w \<and> mode w = SCATTER \<longrightarrow>
      videoLog (animate cfg env time w) = videoLog w @ [Play (\<not> userInteracted w)]
      \<and> videoMuted (animate cfg env time w) = (\<not> userInteracted w))
   \<and> (mode w \<noteq> prevMode w \<and> mode w = TREE \<longrightarrow>
      videoPaused (animate cfg env time w) \<and> \<not> isPlayingVideo (animate cfg env time w)
      \<and> videoLog (animate cfg env time w) =
          videoLog w @ (if isPlayingVideo w \<or> \<not> videoPaused w then [Pause] else []))
   \<and> prevMode (animate cfg env time w) = mode w
   \<and> mode (animate cfg env time w) = mode w
   \<and> (mode w = prevMode w \<longrightarrow>
      videoLog (animate cfg env time w) =
        videoLog w @ (if mode w = TREE \<and> isPlayingVideo w then [Pause] else [])
      \<and> videoMuted (animate cfg env time w) = videoMuted w
      \<and> pendingAutoplay (animate cfg env time w) = pendingAutoplay w)
   \<and> videoLog (animate cfg env2 time2 (animate cfg env time w)) = videoLog (animate cfg env time w)
   \<and> isPlayingVideo (animate cfg env2 time2 (animate cfg env time w)) =
       isPlayingVideo (animate cfg env time w)
   \<and> videoPaused (animate cfg env2 time2 (animate cfg env time w)) =
       videoPaused (animate cfg env time w)"
  by (cases "mode w"; cases "prevMode w"; simp add: animate_ctrl)

theorem mode_edge_once_witness:
  "mode (scatterWorld\<lparr> prevMode := TREE \<rparr>) \<noteq> prevMode (scatterWorld\<lparr> prevMode := TREE \<rparr>)
   \<and> videoLog (animate tinyConfig refusing 1 (scatterWorld\<lparr> prevMode := TREE \<rparr>)) = [Play False]
   \<and> prevMode (animate tinyConfig refusing 1 (scatterWorld\<lparr> prevMode := TREE \<rparr>)) = SCATTER
   \<and> videoLog (animate tinyConfig refusing 2
        (animate tinyConfig refusing 1 (scatterWorld\<lparr> prevMode := TREE \<rparr>))) = [Play False]
   \<and> videoPaused (animate tinyConfig accepting 1
        (treeWorld\<lparr> prevMode := SCATTER, videoPaused := False \<rparr>))
   \<and> videoLog (animate tinyConfig accepting 1
        (treeWorld\<lparr> prevMode := SCATTER, videoPaused := False \<rparr>)) = [Pause]
   \<and> videoLog (animate tinyConfig accepting 1 scatterWorld) = []"
  using mode_edge_once [of "scatterWorld\<lparr> prevMode := TREE \<rparr>" tinyConfig refusing 1 refusing 2]
    mode_edge_once [of "treeWorld\<lparr> prevMode := SCATTER, videoPaused := False \<rparr>" tinyConfig accepting 1]
    mode_edge_once [of scatterWorld tinyConfig accepting 1]
  by (simp add: scatterWorld_def treeWorld_def)

subsection \<open>A frame in TREE mode (C6)\<close>

text \<open>
  Claim C6, as the program has it. After a frame in TREE mode the flag
  \<open>isPlayingVideo\<close> is false. The video is paused after the frame when it was marked
  as playing, when the mode changed on this frame, or when it was paused before; when
  the flag was false and the recorded mode was TREE the frame makes no call and
  leaves \<open>paused\<close> as it found it. A second frame changes neither the flag, nor
  \<open>paused\<close>, nor the calls made.
\<close>

theorem tree_tick_clears_flag:
  assumes "mode w = TREE"
  shows "\<not> isPlayingVideo (animate cfg env time w)
    \<and> (isPlayingVideo w \<or> mode w \<noteq> prevMode w \<or> videoPaused w \<longrightarrow>
         videoPaused (animate cfg env time w))
    \<and> (isPlayingVideo w \<longrightarrow> Pause \<in> set (videoLog (animate cfg env time w)))
    \<and> (\<not> isPlayingVideo w \<and> prevMode w = TREE \<longrightarrow>
         videoPaused (animate cfg env time w) = videoPaused w
         \<and> videoLog (animate cfg env time w) = videoLog w)
    \<and> videoLog (animate cfg env2 time2 (animate cfg env time w)) = videoLog (animate cfg env time w)
    \<and> videoPaused (animate cfg env2 time2 (animate cfg env time w)) =
        videoPaused (animate cfg env time w)
    \<and> isPlayingVideo (animate cfg env2 time2 (animate cfg env time w)) =
        isPlayingVideo (animate cfg env time w)"
  using assms by (simp add: animate_ctrl)

text \<open>Claim C6 as stated fails: after the click on the start overlay the video has
  been asked to play while the mode is TREE and the flag is false, and the next frame
  does not pause it.\<close>

theorem tree_tick_leaves_unmarked_video_running:
  "mode afterOverlayClick = TREE \<and> \<not> videoPaused (animate CONFIG accepting 1 afterOverlayClick)"
  by (simp add: afterOverlayClick_def run_def animate_ctrl initWorld_def handleOverlayClick_def
      overlayStartVideo_def videoPlay_def accepting_def)

theorem tree_tick_clears_flag_witness:
  "mode (treeWorld\<lparr> isPlayingVideo := True, videoPaused := False \<rparr>) = TREE
   \<and> \<not> isPlayingVideo (animate tinyConfig accepting 1
         (treeWorld\<lparr> isPlayingVideo := True, videoPaused := False \<rparr>))
   \<and> videoPaused (animate tinyConfig accepting 1
         (treeWorld\<lparr> isPlayingVideo := True, videoPaused := False \<rparr>))
   \<and> videoLog (animate tinyConfig accepting 1
         (treeWorld\<lparr> isPlayingVideo := True, videoPaused := False \<rparr>)) = [Pause]
   \<and> videoLog (animate tinyConfig accepting 1 treeWorld) = []"
  using tree_tick_clears_flag [of "treeWorld\<lparr> isPlayingVideo := True, videoPaused := False \<rparr>" tinyConfig accepting 1]
    tree_tick_clears_flag [of treeWorld tinyConfig accepting 1]
  by (simp add: treeWorld_def animate_ctrl)

subsection \<open>The spiral band (C7)\<close>

text \<open>
  Claim C7. In a well-formed state, after a frame in TREE mode spiral particle \<open>i\<close>
  has the height \<open>spec_spiralHeight\<close>, which differs from the base height plus
  \<open>time * spiralSpeed\<close> by a multiple of the tree height and lies within half a tree
  height of zero when time and speed are not negative; its x and z are the cosine and
  sine of the angle \<open>normH * 2 * pi * spiralTurns + time * spiralSpeed\<close> times the
  radius \<open>(1 - normH) * treeRadius * 1.15 + 0.2\<close>. After a frame in SCATTER mode its
  three coordinates are the entries of the scatter table, whatever they were before.
\<close>

theorem spiral_update:
  assumes "wellFormed cfg w" "i < spiralCount cfg"
  shows "(mode w = TREE \<longrightarrow>
      spiralPos (animate cfg env time w) ! (i * 3 + 1) = spec_spiralHeight cfg time i
      \<and> spiralPos (animate cfg env time w) ! (i * 3) =
          cos (spec_spiralAngle cfg time (spec_normH cfg (spec_spiralHeight cfg time i)))
            * spec_spiralRadius cfg (spec_normH cfg (spec_spiralHeight cfg time i))
      \<and> spiralPos (animate cfg env time w) ! (i * 3 + 2) =
          sin (spec_spiralAngle cfg time (spec_normH cfg (spec_spiralHeight cfg time i)))
            * spec_spiralRadius cfg (spec_normH cfg (spec_spiralHeight cfg time i))
      \<and> (\<exists>m::int. spec_spiralHeight cfg time i =
            real i / real (spiralCount cfg) * treeHeight cfg - treeHeight cfg / 2
              + time * spiralSpeed cfg - of_int m * treeHeight cfg)
      \<and> (0 \<le> time \<and> 0 \<le> spiralSpeed cfg \<and> 0 < treeHeight cfg \<longrightarrow>
            - (treeHeight cfg / 2) \<le> spec_spiralHeight cfg time i
            \<and> spec_spiralHeight cfg time i \<le> treeHeight cfg / 2))
    \<and> (mode w = SCATTER \<longrightarrow>
      spiralPos (animate cfg env time w) ! (i * 3) = spiralScatterCoords w ! (i * 3)
      \<and> spiralPos (animate cfg env time w) ! (i * 3 + 1) = spiralScatterCoords w ! (i * 3 + 1)
      \<and> spiralPos (animate cfg env time w) ! (i * 3 + 2) = spiralScatterCoords w ! (i * 3 + 2))"
proof -
  from assms have r: "i * 3 + 2 < length (spiralPos w)"
    by (simp add: wellFormed_def)
  have q: "(i * 3) div 3 = i" "(i * 3 + 1) div 3 = i" "(i * 3 + 2) div 3 = i"
    by simp_all
  note n = animate_spiralPos_nth [OF assms(2) q(1), of env time w]
    animate_spiralPos_nth [OF assms(2) q(2), of env time w]
    animate_spiralPos_nth [OF assms(2) q(3), of env time w]
  have tree: "mode w = TREE \<longrightarrow>
      spiralPos (animate cfg env time w) ! (i * 3 + 1) = spec_spiralHeight cfg time i
      \<and> spiralPos (animate cfg env time w) ! (i * 3) =
          cos (spec_spiralAngle cfg time (spec_normH cfg (spec_spiralHeight cfg time i)))
            * spec_spiralRadius cfg (spec_normH cfg (spec_spiralHeight cfg time i))
      \<and> spiralPos (animate cfg env time w) ! (i * 3 + 2) =
          sin (spec_spiralAngle cfg time (spec_normH cfg (spec_spiralHeight cfg time i)))
            * spec_spiralRadius cfg (spec_normH cfg (spec_spiralHeight cfg time i))"
  proof
    assume m: "mode w = TREE"
    show "spiralPos (animate cfg env time w) ! (i * 3 + 1) = spec_spiralHeight cfg time i
      \<and> spiralPos (animate cfg env time w) ! (i * 3) =
          cos (spec_spiralAngle cfg time (spec_normH cfg (spec_spiralHeight cfg time i)))
            * spec_spiralRadius cfg (spec_normH cfg (spec_spiralHeight cfg time i))
      \<and> spiralPos (animate cfg env time w) ! (i * 3 + 2) =
          sin (spec_spiralAngle cfg time (spec_normH cfg (spec_spiralHeight cfg time i)))
            * spec_spiralRadius cfg (spec_normH cfg (spec_spiralHeight cfg time i))"
      unfolding n m by (intro conjI) (rule spiralBody_tree [OF r])+
  qed
  have range: "0 \<le> time \<and> 0 \<le> spiralSpeed cfg \<and> 0 < treeHeight cfg \<longrightarrow>
            - (treeHeight cfg / 2) \<le> spec_spiralHeight cfg time i
            \<and> spec_spiralHeight cfg time i \<le> treeHeight cfg / 2"
    using spec_spiralHeight_range [of time cfg i] assms(2) by blast
  have scat: "mode w = SCATTER \<longrightarrow>
      spiralPos (animate cfg env time w) ! (i * 3) = spiralScatterCoords w ! (i * 3)
      \<and> spiralPos (animate cfg env time w) ! (i * 3 + 1) = spiralScatterCoords w ! (i * 3 + 1)
      \<and> spiralPos (animate cfg env time w) ! (i * 3 + 2) = spiralScatterCoords w ! (i * 3 + 2)"
  proof
    assume "mode w = SCATTER"
    then have m: "mode w \<noteq> TREE" by simp
    show "spiralPos (animate cfg env time w) ! (i * 3) = spiralScatterCoords w ! (i * 3)
      \<and> spiralPos (animate cfg env time w) ! (i * 3 + 1) = spiralScatterCoords w ! (i * 3 + 1)
      \<and> spiralPos (animate cfg env time w) ! (i * 3 + 2) = spiralScatterCoords w ! (i * 3 + 2)"
      unfolding n by (intro conjI) (rule spiralBody_scatter [OF r m])+
  qed
  from tree range scat spec_spiralHeight_congruent [of cfg time i] show ?thesis by blast
qed

theorem spiral_update_witness:
  "wellFormed tinyConfig treeWorld \<and> (1::nat) < spiralCount tinyConfig
   \<and> spiralPos (animate tinyConfig accepting 10 treeWorld) ! 4 = 2
   \<and> spiralPos (animate tinyConfig accepting 5 treeWorld) ! 4 = - 2
   \<and> spiralPos (animate tinyConfig accepting 5 scatterWorld) ! 3 = 0
   \<and> spiralPos (animate tinyConfig accepting 5 scatterWorld) ! 4 = 0
   \<and> spiralPos (animate tinyConfig accepting 5 scatterWorld) ! 5 = 4
   \<and> spiralPos (run tinyConfig treeWorld
        [HandsResults accepting (Some [handAt 0.25 0.65 0.75]), Tick accepting 5]) ! 5 = 4"
proof -
  note defs = wellFormed_def tinyConfig_def CONFIG_def treeWorld_def scatterWorld_def
  let ?w = "onHandsResults accepting (Some [handAt 0.25 0.65 0.75]) treeWorld"
  have w: "wellFormed tinyConfig treeWorld" "wellFormed tinyConfig scatterWorld"
    by (simp_all add: defs)
  have c: "(1::nat) < spiralCount tinyConfig"
    by (simp add: tinyConfig_def CONFIG_def)
  have a: "spiralPos (animate tinyConfig accepting 10 treeWorld) ! 4 = 2"
    using spiral_update [OF w(1) c, of accepting 10]
    by (simp add: defs spec_spiralHeight_def js_rem_def trunc_def Let_def)
  have b: "spiralPos (animate tinyConfig accepting 5 treeWorld) ! 4 = - 2"
    using spiral_update [OF w(1) c, of accepting 5]
    by (simp add: defs spec_spiralHeight_def js_rem_def trunc_def Let_def)
  have s: "spiralPos (animate tinyConfig accepting 5 scatterWorld) ! 3 = 0
      \<and> spiralPos (animate tinyConfig accepting 5 scatterWorld) ! 4 = 0
      \<and> spiralPos (animate tinyConfig accepting 5 scatterWorld) ! 5 = 4"
    using spiral_update [OF w(2) c, of accepting 5]
    by (simp add: defs)
  have "wellFormed tinyConfig (step tinyConfig treeWorld
      (HandsResults accepting (Some [handAt 0.25 0.65 0.75])))"
    using w(1) by (rule wellFormed_step)
  then have w': "wellFormed tinyConfig ?w" by simp
  have m: "mode ?w = SCATTER"
    by (simp add: onHandsResults_hand detectPinch_mode classify_mode avgDist_handAt)
  have t: "spiralScatterCoords ?w = [4, 0, 0, 0, 0, 4]"
    using step_tables [of tinyConfig treeWorld "HandsResults accepting (Some [handAt 0.25 0.65 0.75])"]
    by (simp add: treeWorld_def)
  have f: "spiralPos (run tinyConfig treeWorld
        [HandsResults accepting (Some [handAt 0.25 0.65 0.75]), Tick accepting 5]) ! 5 = 4"
    using spiral_update [OF w' c, of accepting 5] m t
    by (simp add: run_def)
  from w(1) c a b s f show ?thesis by blast
qed

subsection \<open>The scatter targets (C8)\<close>

text \<open>
  Claim C8. When every random draw lies in \<open>[0, 1)\<close> and the scatter radius is not
  negative, scatter target \<open>i\<close> of the main cloud is the point with spherical
  coordinates \<open>sr\<close>, \<open>theta\<close>, \<open>phi\<close>, where \<open>sr\<close> is the scatter radius times the cube
  root of a draw (so the cube of \<open>sr\<close> is proportional to the draw), \<open>theta\<close> is a draw
  times \<open>2 * pi\<close> and lies in \<open>[0, 2 * pi)\<close>, and \<open>phi\<close> is the arc cosine of twice a
  draw minus one. Its distance from the origin is \<open>sr\<close>, at most the scatter radius.
\<close>

theorem scatter_sampling:
  assumes "\<forall>k. 0 \<le> rnd k \<and> rnd k < 1" "0 \<le> scatterRadius cfg" "i < particleCount cfg"
  shows "let S = scatterPositions (initWorld cfg rnd p m);
             sr = scatterRadius cfg * root 3 (rnd (6 * i + 2));
             theta = rnd (6 * i + 3) * 2 * pi;
             phi = arccos (2 * rnd (6 * i + 4) - 1)
         in length S = 3 * particleCount cfg
            \<and> S ! (i * 3) = sr * sin phi * cos theta
            \<and> S ! (i * 3 + 1) = sr * sin phi * sin theta
            \<and> S ! (i * 3 + 2) = sr * cos phi
            \<and> 0 \<le> theta \<and> theta < 2 * pi
            \<and> 0 \<le> phi \<and> phi \<le> pi \<and> cos phi = 2 * rnd (6 * i + 4) - 1
            \<and> 0 \<le> sr \<and> sr \<le> scatterRadius cfg
            \<and> sr ^ 3 = scatterRadius cfg ^ 3 * rnd (6 * i + 2)
            \<and> sqrt ((S ! (i * 3))\<^sup>2 + (S ! (i * 3 + 1))\<^sup>2 + (S ! (i * 3 + 2))\<^sup>2) = sr
            \<and> sqrt ((S ! (i * 3))\<^sup>2 + (S ! (i * 3 + 1))\<^sup>2 + (S ! (i * 3 + 2))\<^sup>2)
                \<le> scatterRadius cfg"
proof -
  define S where "S = scatterPositions (initWorld cfg rnd p m)"
  define sr where "sr = scatterRadius cfg * root 3 (rnd (6 * i + 2))"
  define theta where "theta = rnd (6 * i + 3) * 2 * pi"
  define phi where "phi = arccos (2 * rnd (6 * i + 4) - 1)"
  from assms(1) have u: "0 \<le> rnd (6 * i + 2)" "rnd (6 * i + 2) < 1"
    and v: "0 \<le> rnd (6 * i + 3)" "rnd (6 * i + 3) < 1"
    and x: "0 \<le> rnd (6 * i + 4)" "rnd (6 * i + 4) < 1"
    by simp_all
  have len: "length S = 3 * particleCount cfg"
    using wellFormed_initWorld [of cfg rnd p m] by (simp add: S_def wellFormed_def)
  have k: "(0::nat) < 3" "(1::nat) < 3" "(2::nat) < 3" by simp_all
  have s0: "S ! (i * 3) = sr * sin phi * cos theta"
    using scatterPositions_init_nth [OF assms(3) k(1), of rnd p m]
    by (simp add: S_def scatterPoint_def Let_def sr_def theta_def phi_def)
  have s1: "S ! (i * 3 + 1) = sr * sin phi * sin theta"
    using scatterPositions_init_nth [OF assms(3) k(2), of rnd p m]
    by (simp add: S_def scatterPoint_def Let_def sr_def theta_def phi_def)
  have s2: "S ! (i * 3 + 2) = sr * cos phi"
    using scatterPositions_init_nth [OF assms(3) k(3), of rnd p m]
    by (simp add: S_def scatterPoint_def Let_def sr_def theta_def phi_def)
  have th: "0 \<le> theta" "theta < 2 * pi"
    using v by (simp_all add: theta_def)
  have b: "- 1 \<le> 2 * rnd (6 * i + 4) - 1" "2 * rnd (6 * i + 4) - 1 \<le> 1"
    using x by simp_all
  have ph: "0 \<le> phi" "phi \<le> pi" "cos phi = 2 * rnd (6 * i + 4) - 1"
    unfolding phi_def using b by (simp_all add: arccos_lbound arccos_ubound)
  have r0: "0 \<le> root 3 (rnd (6 * i + 2))" "root 3 (rnd (6 * i + 2)) \<le> 1"
    using u by simp_all
  have sr0: "0 \<le> sr"
    unfolding sr_def using assms(2) r0(1) by simp
  have "scatterRadius cfg * root 3 (rnd (6 * i + 2)) \<le> scatterRadius cfg * 1"
    using assms(2) r0(2) by (rule mult_left_mono [rotated])
  then have sr1: "sr \<le> scatterRadius cfg"
    by (simp add: sr_def)
  have cube: "sr ^ 3 = scatterRadius cfg ^ 3 * rnd (6 * i + 2)"
    by (simp add: sr_def power_mult_distrib odd_real_root_pow)
  have "sqrt ((S ! (i * 3))\<^sup>2 + (S ! (i * 3 + 1))\<^sup>2 + (S ! (i * 3 + 2))\<^sup>2) = sqrt (sr\<^sup>2)"
    unfolding s0 s1 s2 by (simp only: sphere_norm)
  with sr0 have norm: "sqrt ((S ! (i * 3))\<^sup>2 + (S ! (i * 3 + 1))\<^sup>2 + (S ! (i * 3 + 2))\<^sup>2) = sr"
    by simp
  from len s0 s1 s2 th ph sr0 sr1 cube norm show ?thesis
    unfolding Let_def S_def [symmetric] sr_def [symmetric] theta_def [symmetric] phi_def [symmetric]
    by simp
qed

theorem scatter_sampling_witness:
  "(\<forall>k. 0 \<le> eighthRnd k \<and> eighthRnd k < 1) \<and> 0 \<le> scatterRadius tinyConfig
   \<and> (1::nat) < particleCount tinyConfig
   \<and> length (scatterPositions (initWorld tinyConfig eighthRnd True False)) = 6
   \<and> scatterPositions (initWorld tinyConfig eighthRnd True False) ! 5 = - 3
   \<and> sqrt ((scatterPositions (initWorld tinyConfig eighthRnd True False) ! 3)\<^sup>2
        + (scatterPositions (initWorld tinyConfig eighthRnd True False) ! 4)\<^sup>2
        + (scatterPositions (initWorld tinyConfig eighthRnd True False) ! 5)\<^sup>2) = 4"
proof -
  have h: "\<forall>k. 0 \<le> eighthRnd k \<and> eighthRnd k < 1" "0 \<le> scatterRadius tinyConfig"
    "(1::nat) < particleCount tinyConfig"
    by (simp_all add: eighthRnd_def tinyConfig_def CONFIG_def)
  have c: "cos (arccos (- (3 / 4))) = - (3 / 4 :: real)"
    by (rule cos_arccos) simp_all
  let ?S = "scatterPositions (initWorld tinyConfig eighthRnd True False)"
  note t = scatter_sampling [OF h, of True False, unfolded Let_def]
  from t have "length ?S = 3 * particleCount tinyConfig" by blast
  then have l: "length ?S = 6"
    by (simp add: tinyConfig_def CONFIG_def)
  from t have "?S ! (1 * 3 + 2) =
      scatterRadius tinyConfig * root 3 (eighthRnd (6 * 1 + 2))
        * cos (arccos (2 * eighthRnd (6 * 1 + 4) - 1))"
    by blast
  then have z: "?S ! 5 = - 3"
    using c by (simp add: eighthRnd_def tinyConfig_def CONFIG_def root3_eighth)
  from t have "sqrt ((?S ! (1 * 3))\<^sup>2 + (?S ! (1 * 3 + 1))\<^sup>2 + (?S ! (1 * 3 + 2))\<^sup>2) =
      scatterRadius tinyConfig * root 3 (eighthRnd (6 * 1 + 2))"
    by blast
  then have n: "sqrt ((?S ! 3)\<^sup>2 + (?S ! 4)\<^sup>2 + (?S ! 5)\<^sup>2) = 4"
    by (simp add: eighthRnd_def tinyConfig_def CONFIG_def root3_eighth)
  from h l z n show ?thesis by blast
qed

subsection \<open>A callback without a hand (C9)\<close>

text \<open>
  Claim C9. A callback whose result holds no hand, be the list of hands absent or
  empty, sets \<open>handDetected\<close> to false and writes nothing else: the state it returns is
  the state it received with that one field replaced.
\<close>

theorem no_hand_frame: "onHandsResults env None w = w\<lparr> handDetected := False \<rparr>
  \<and> onHandsResults env (Some []) w = w\<lparr> handDetected := False \<rparr>"
  by (simp add: onHandsResults_def)

theorem no_hand_frame_witness:
  "handDetected (run tinyConfig treeWorld [HandsResults accepting (Some [handAt 0.25 0.65 0.75])])
   \<and> \<not> handDetected (run tinyConfig treeWorld
        [HandsResults accepting (Some [handAt 0.25 0.65 0.75]), HandsResults accepting None])
   \<and> mode (run tinyConfig treeWorld
        [HandsResults accepting (Some [handAt 0.25 0.65 0.75]), HandsResults accepting None]) = SCATTER
   \<and> gesture (run tinyConfig treeWorld
        [HandsResults accepting (Some [handAt 0.25 0.65 0.75]), HandsResults accepting None]) = OPEN
   \<and> handX (run tinyConfig treeWorld
        [HandsResults accepting (Some [handAt 0.25 0.65 0.75]), HandsResults accepting None]) = - (1 / 2)"
  using no_hand_frame [of accepting "onHandsResults accepting (Some [handAt 0.25 0.65 0.75]) treeWorld"]
  by (simp add: run_def onHandsResults_hand detectPinch_def classifyOpenClosed_def
      avgDist_handAt pinchDist_handAt handAt_wrist)

subsection \<open>The pinch replaces the gesture, not the mode (C10)\<close>

text \<open>
  Claim C10. When the thumb tip and the index tip are closer than 0.05 the gesture at
  the end of the callback is PINCH, also when the classification of the same callback
  had set it to CLOSED or OPEN, and the mode at the end is the one that
  classification chose.
\<close>

theorem pinch_overrides_gesture:
  assumes "pinchDist lm < 0.05"
  shows "gesture (onHandsResults env (Some (lm # rest)) w) = PINCH
    \<and> mode (onHandsResults env (Some (lm # rest)) w) =
        (if avgDist lm < 0.25 then TREE else if avgDist lm > 0.35 then SCATTER else mode w)
    \<and> gesture (classifyOpenClosed (avgDist lm) w) =
        (if avgDist lm < 0.25 then CLOSED else if avgDist lm > 0.35 then OPEN else gesture w)"
  using assms
  by (simp add: onHandsResults_hand detectPinch_gesture detectPinch_mode classify_mode classify_gesture)

theorem pinch_overrides_gesture_witness:
  "pinchDist (handAt 0.5 0.6 0.6) < 0.05 \<and> avgDist (handAt 0.5 0.6 0.6) < 0.25
   \<and> gesture (classifyOpenClosed (avgDist (handAt 0.5 0.6 0.6)) scatterWorld) = CLOSED
   \<and> gesture (onHandsResults accepting (Some [handAt 0.5 0.6 0.6]) scatterWorld) = PINCH
   \<and> mode (onHandsResults accepting (Some [handAt 0.5 0.6 0.6]) scatterWorld) = TREE"
  using pinch_overrides_gesture [of "handAt 0.5 0.6 0.6" accepting "[]" scatterWorld]
  by (simp add: avgDist_handAt pinchDist_handAt)

end
